theory Spec2Isabelle
  imports Complex_Main "HOL-Library.Log_Nat"
begin

section \<open>Numbers and their rendering\<close>

text \<open>
  A finite JavaScript number is represented by the rational it denotes (\<open>rat\<close>). The
  formatting functions, the price normalisation and the market shares compute on
  these rationals exactly. The revenue growth rates are computed as the source computes
  them, in double precision: a revenue is rounded to the double that the JSON parser
  makes of it, and the result of every operation is rounded to the nearest double
  (\<open>dbl\<close> below). A value that a guard treats alike whether it is \<open>undefined\<close> or \<open>null\<close>
  is a \<open>rat option\<close>; a field that enters arithmetic unguarded keeps the distinction
  (\<open>optional_number\<close>), because \<open>null\<close> counts as \<open>0\<close> there and \<open>undefined\<close> gives \<open>NaN\<close>.
  Where the source can divide by zero, overflow or compute with an absent operand the
  result is a \<open>jsnum\<close>, which adds the three non-finite values. The sign of a zero is not
  modelled: every zero is \<open>+0\<close>.
\<close>

datatype jsnum = Num rat | PosInf | NegInf | NaN

text \<open>\<open>a / b\<close> on two finite numbers (the sign of a zero is not modelled).\<close>

definition js_div :: "rat \<Rightarrow> rat \<Rightarrow> jsnum" where
  "js_div a b =
     (if b \<noteq> 0 then Num (a / b)
      else if a > 0 then PosInf
      else if a < 0 then NegInf
      else NaN)"

text \<open>\<open>x * k\<close> for a finite factor \<open>k\<close>.\<close>

definition js_times :: "jsnum \<Rightarrow> rat \<Rightarrow> jsnum" where
  "js_times x k =
     (case x of
        Num a \<Rightarrow> Num (a * k)
      | NaN \<Rightarrow> NaN
      | PosInf \<Rightarrow> (if k > 0 then PosInf else if k < 0 then NegInf else NaN)
      | NegInf \<Rightarrow> (if k > 0 then NegInf else if k < 0 then PosInf else NaN))"

text \<open>\<open>Math.round\<close>: the nearest integer, a tie going towards plus infinity.\<close>

definition Math_round :: "rat \<Rightarrow> int" where
  "Math_round x = \<lfloor>x + 1 / 2\<rfloor>"

text \<open>
  A numeric field of a JSON object: not there, \<open>null\<close>, or a number, given by the value
  of its numeral in the JSON text.
\<close>

datatype optional_number = Undefined | Null | Number rat

text \<open>The number held, for the guards that take \<open>undefined\<close> and \<open>null\<close> alike.\<close>

definition known :: "optional_number \<Rightarrow> rat option" where
  "known v = (case v of Number x \<Rightarrow> Some x | Null \<Rightarrow> None | Undefined \<Rightarrow> None)"

subsection \<open>Double precision\<close>

text \<open>
  A double is \<open>m * 2 ^ (e - 52)\<close> with an integer \<open>m\<close> below \<open>2 ^ 53\<close> in magnitude and
  \<open>- 1022 \<le> e \<le> 1023\<close>. \<open>pow2 e\<close> is \<open>2 ^ e\<close> for an integer exponent, and \<open>ilog2 x\<close> is
  the exponent \<open>e\<close> with \<open>2 ^ e \<le> x < 2 ^ (e + 1)\<close> of a positive \<open>x\<close>, found from the bit
  lengths of numerator and denominator.
\<close>

definition pow2 :: "int \<Rightarrow> rat" where
  "pow2 e = (if 0 \<le> e then 2 ^ nat e else 1 / 2 ^ nat (- e))"

definition ilog2 :: "rat \<Rightarrow> int" where
  "ilog2 x =
     (let (a, b) = quotient_of x;
          d = bitlen a - bitlen b
      in if pow2 d \<le> x then d else d - 1)"

text \<open>The nearest integer, a tie going to the even one.\<close>

definition round_even :: "rat \<Rightarrow> int" where
  "round_even q =
     (let f = \<lfloor>q\<rfloor>;
          d = q - of_int f
      in if d < 1 / 2 then f else if 1 / 2 < d then f + 1 else if even f then f else f + 1)"

text \<open>
  The double nearest to a rational \<open>x\<close> (IEEE 754 binary64, round to nearest, ties to
  even): \<open>x\<close> is rounded to a multiple of the unit \<open>2 ^ (e - 52)\<close> of its binade, the
  exponent being held at \<open>- 1022\<close> for the subnormal numbers, and a result of magnitude
  \<open>2 ^ 1024\<close> or more is infinite. This is the number that the JSON parser makes of a
  numeral, and the result of an operation whose exact result is \<open>x\<close>.
\<close>

definition dbl :: "rat \<Rightarrow> jsnum" where
  "dbl x =
     (if x = 0 then Num 0
      else let e = max (ilog2 \<bar>x\<bar>) (- 1022);
               u = pow2 (e - 52);
               y = of_int (round_even (\<bar>x\<bar> / u)) * u
           in if pow2 1024 \<le> y then (if 0 < x then PosInf else NegInf)
              else Num (if 0 < x then y else - y))"

text \<open>
  \<open>ToNumber\<close>, the conversion applied to an operand of \<open>-\<close>, \<open>/\<close>, \<open>*\<close> and \<open>>\<close>, on a field
  read from the parsed JSON.
\<close>

definition ToNumber :: "optional_number \<Rightarrow> jsnum" where
  "ToNumber v = (case v of Number x \<Rightarrow> dbl x | Null \<Rightarrow> Num 0 | Undefined \<Rightarrow> NaN)"

text \<open>\<open>x > 0\<close>.\<close>

definition js_positive :: "jsnum \<Rightarrow> bool" where
  "js_positive x = (case x of Num a \<Rightarrow> 0 < a | PosInf \<Rightarrow> True | NegInf \<Rightarrow> False | NaN \<Rightarrow> False)"

text \<open>\<open>x - y\<close>, \<open>x * y\<close> and \<open>x / y\<close> on doubles.\<close>

definition dbl_minus :: "jsnum \<Rightarrow> jsnum \<Rightarrow> jsnum" where
  "dbl_minus x y =
     (case x of
        Num a \<Rightarrow> (case y of Num b \<Rightarrow> dbl (a - b) | PosInf \<Rightarrow> NegInf | NegInf \<Rightarrow> PosInf
                  | NaN \<Rightarrow> NaN)
      | PosInf \<Rightarrow> (case y of Num b \<Rightarrow> PosInf | PosInf \<Rightarrow> NaN | NegInf \<Rightarrow> PosInf | NaN \<Rightarrow> NaN)
      | NegInf \<Rightarrow> (case y of Num b \<Rightarrow> NegInf | PosInf \<Rightarrow> NegInf | NegInf \<Rightarrow> NaN | NaN \<Rightarrow> NaN)
      | NaN \<Rightarrow> NaN)"

definition dbl_times :: "jsnum \<Rightarrow> jsnum \<Rightarrow> jsnum" where
  "dbl_times x y =
     (case x of
        Num a \<Rightarrow>
          (case y of
             Num b \<Rightarrow> dbl (a * b)
           | PosInf \<Rightarrow> (if 0 < a then PosInf else if a < 0 then NegInf else NaN)
           | NegInf \<Rightarrow> (if 0 < a then NegInf else if a < 0 then PosInf else NaN)
           | NaN \<Rightarrow> NaN)
      | PosInf \<Rightarrow>
          (case y of
             Num b \<Rightarrow> (if 0 < b then PosInf else if b < 0 then NegInf else NaN)
           | PosInf \<Rightarrow> PosInf | NegInf \<Rightarrow> NegInf | NaN \<Rightarrow> NaN)
      | NegInf \<Rightarrow>
          (case y of
             Num b \<Rightarrow> (if 0 < b then NegInf else if b < 0 then PosInf else NaN)
           | PosInf \<Rightarrow> NegInf | NegInf \<Rightarrow> PosInf | NaN \<Rightarrow> NaN)
      | NaN \<Rightarrow> NaN)"

definition dbl_over :: "jsnum \<Rightarrow> jsnum \<Rightarrow> jsnum" where
  "dbl_over x y =
     (case x of
        Num a \<Rightarrow>
          (case y of
             Num b \<Rightarrow>
               (if b \<noteq> 0 then dbl (a / b)
                else if 0 < a then PosInf else if a < 0 then NegInf else NaN)
           | PosInf \<Rightarrow> Num 0 | NegInf \<Rightarrow> Num 0 | NaN \<Rightarrow> NaN)
      | PosInf \<Rightarrow>
          (case y of
             Num b \<Rightarrow> (if 0 \<le> b then PosInf else NegInf)
           | PosInf \<Rightarrow> NaN | NegInf \<Rightarrow> NaN | NaN \<Rightarrow> NaN)
      | NegInf \<Rightarrow>
          (case y of
             Num b \<Rightarrow> (if 0 \<le> b then NegInf else PosInf)
           | PosInf \<Rightarrow> NaN | NegInf \<Rightarrow> NaN | NaN \<Rightarrow> NaN)
      | NaN \<Rightarrow> NaN)"

text \<open>
  \<open>Math.round\<close> on a double: the result is exact, since a double of magnitude \<open>2 ^ 52\<close> or
  more is an integer already.
\<close>

definition js_round :: "jsnum \<Rightarrow> jsnum" where
  "js_round x =
     (case x of Num a \<Rightarrow> Num (of_int (Math_round a)) | PosInf \<Rightarrow> PosInf | NegInf \<Rightarrow> NegInf
      | NaN \<Rightarrow> NaN)"

subsection \<open>Rendering of numbers\<close>

text \<open>
  Rounding of a non-negative magnitude to the nearest integer, ties upwards; this is
  the choice of digits made by \<open>toFixed\<close> and by the number formatter of
  \<open>toLocaleString\<close> once the sign has been split off.
\<close>

definition round_magnitude :: "rat \<Rightarrow> nat" where
  "round_magnitude x = nat \<lfloor>\<bar>x\<bar> + 1 / 2\<rfloor>"

definition digit_char :: "nat \<Rightarrow> char" where
  "digit_char d = ''0123456789'' ! d"

fun dec_string :: "nat \<Rightarrow> string" where
  "dec_string n =
     (if n < 10 then [digit_char n] else dec_string (n div 10) @ [digit_char (n mod 10)])"

text \<open>The last \<open>d\<close> decimal digits of \<open>n\<close>, with leading zeros.\<close>

fun frac_digits :: "nat \<Rightarrow> nat \<Rightarrow> string" where
  "frac_digits 0 n = []"
| "frac_digits (Suc d) n = frac_digits d (n div 10) @ [digit_char (n mod 10)]"

text \<open>
  \<open>Number.prototype.toFixed(d)\<close> for a finite number below \<open>1e21\<close>: a minus sign when
  the number is negative, the integer digits, and a point followed by exactly \<open>d\<close>
  digits when \<open>d > 0\<close>.
\<close>

definition toFixed :: "nat \<Rightarrow> rat \<Rightarrow> string" where
  "toFixed d x =
     (let n = round_magnitude (x * 10 ^ d)
      in (if x < 0 then ''-'' else '''') @ dec_string (n div 10 ^ d)
         @ (if d = 0 then '''' else ''.'' @ frac_digits d n))"

text \<open>Commas between groups of three digits, counted from the right.\<close>

fun group3 :: "string \<Rightarrow> string" where
  "group3 s = (if length s \<le> 3 then s
               else group3 (take (length s - 3) s) @ '','' @ drop (length s - 3) s)"

definition strip_zeros :: "string \<Rightarrow> string" where
  "strip_zeros s = rev (dropWhile (\<lambda>c. c = CHR ''0'') (rev s))"

text \<open>
  \<open>Number.prototype.toLocaleString()\<close> of a finite number, for the \<open>en-US\<close> locale
  (the source passes no locale, so the runtime default applies): grouping commas, at
  most three fraction digits, no trailing zeros.
\<close>

definition toLocaleString :: "rat \<Rightarrow> string" where
  "toLocaleString x =
     (let n = round_magnitude (x * 1000)
      in (if x < 0 then ''-'' else '''') @ group3 (dec_string (n div 1000))
         @ (if n mod 1000 = 0 then '''' else ''.'' @ strip_zeros (frac_digits 3 (n mod 1000))))"

subsection \<open>The formatting functions of \<open>fmpClient.ts\<close>\<close>

text \<open>
  The argument \<open>None\<close> stands for \<open>null\<close>, \<open>undefined\<close> and \<open>NaN\<close>, which the three
  functions treat alike.
\<close>

definition formatLargeNumber :: "rat option \<Rightarrow> string" where
  "formatLargeNumber v =
     (case v of
        None \<Rightarrow> ''N/A''
      | Some x \<Rightarrow>
          if x \<ge> 10 ^ 12 then ''$'' @ toFixed 2 (x / 10 ^ 12) @ ''T''
          else if x \<ge> 10 ^ 9 then ''$'' @ toFixed 2 (x / 10 ^ 9) @ ''B''
          else if x \<ge> 10 ^ 6 then ''$'' @ toFixed 2 (x / 10 ^ 6) @ ''M''
          else ''$'' @ toLocaleString x)"

definition formatPercentage :: "rat option \<Rightarrow> nat \<Rightarrow> string" where
  "formatPercentage v decimals =
     (case v of None \<Rightarrow> ''N/A'' | Some x \<Rightarrow> toFixed decimals x @ ''%'')"

definition formatRatio :: "rat option \<Rightarrow> nat \<Rightarrow> string" where
  "formatRatio v decimals =
     (case v of None \<Rightarrow> ''N/A'' | Some x \<Rightarrow> toFixed decimals x @ ''x'')"

text \<open>\<open>safeText\<close> of \<open>pptxTemplates.ts\<close> on a string argument: \<open>value || 'N/A'\<close>.\<close>

definition safeText :: "string \<Rightarrow> string" where
  "safeText s = (if s = [] then ''N/A'' else s)"


section \<open>Sorting with a comparator\<close>

text \<open>
  \<open>Array.prototype.sort(cmp)\<close> is stable. \<open>js_sort\<close> is the stable insertion sort driven
  by the comparator: an element stays in front of a later one unless the comparator
  returns a positive number. The comparator's result is an \<open>int option\<close> or a
  \<open>rat option\<close>, \<open>None\<close> being \<open>NaN\<close>, which the sort takes as \<open>+0\<close>. For a comparator of
  the form \<open>key a - key b\<close> on total keys this is the one stable ordering by key; for a
  comparator that is not a consistent order (some keys \<open>NaN\<close>) ECMAScript leaves the
  order to the implementation, and \<open>js_sort\<close> gives one admissible result.
\<close>

definition cmp_le0 :: "('n::{zero,ord}) option \<Rightarrow> bool" where
  "cmp_le0 r = (case r of None \<Rightarrow> True | Some d \<Rightarrow> d \<le> 0)"

fun js_insert :: "('a \<Rightarrow> 'a \<Rightarrow> ('n::{zero,ord}) option) \<Rightarrow> 'a \<Rightarrow> 'a list \<Rightarrow> 'a list" where
  "js_insert cmp x [] = [x]"
| "js_insert cmp x (y # ys) =
     (if cmp_le0 (cmp x y) then x # y # ys else y # js_insert cmp x ys)"

definition js_sort :: "('a \<Rightarrow> 'a \<Rightarrow> ('n::{zero,ord}) option) \<Rightarrow> 'a list \<Rightarrow> 'a list" where
  "js_sort cmp xs = foldr (js_insert cmp) xs []"

text \<open>
  \<open>parseInt(s)\<close> with the default radix, for decimal input: leading white space is
  skipped, a sign is accepted, the longest run of decimal digits is read, and the
  result is \<open>NaN\<close> (\<open>None\<close>) when there is no digit. The hexadecimal prefix \<open>0x\<close> is not
  modelled.
\<close>

definition is_space :: "char \<Rightarrow> bool" where
  "is_space c = (c \<in> set [CHR '' '', CHR 0x09, CHR 0x0A, CHR 0x0B, CHR 0x0C, CHR 0x0D])"

definition is_digit :: "char \<Rightarrow> bool" where
  "is_digit c = (c \<in> set ''0123456789'')"

definition digit_val :: "char \<Rightarrow> nat" where
  "digit_val c = of_char c - 48"

definition digits_val :: "string \<Rightarrow> nat" where
  "digits_val ds = foldl (\<lambda>acc c. acc * 10 + digit_val c) 0 ds"

definition parseInt :: "string \<Rightarrow> int option" where
  "parseInt s =
     (let t = dropWhile is_space s;
          neg = (t \<noteq> [] \<and> hd t = CHR ''-'');
          u = (if t \<noteq> [] \<and> (hd t = CHR ''-'' \<or> hd t = CHR ''+'') then tl t else t);
          ds = takeWhile is_digit u
      in if ds = [] then None
         else Some (if neg then - int (digits_val ds) else int (digits_val ds)))"

text \<open>\<open>a - b\<close> on two results of \<open>parseInt\<close>.\<close>

definition nan_minus :: "int option \<Rightarrow> int option \<Rightarrow> int option" where
  "nan_minus a b = (case (a, b) of (Some x, Some y) \<Rightarrow> Some (x - y) | _ \<Rightarrow> None)"

section \<open>Data model (\<open>types.ts\<close>)\<close>

text \<open>
  Only the fields read by the modelled functions are kept. A \<open>date\<close> string is
  represented by the time value \<open>new Date(date).getTime()\<close> it parses to. The numeric
  fields of a statement, of the ratios and of the profile are optional, \<open>None\<close> being a
  value that the provider's JSON does not carry (\<open>undefined\<close>) or carries as \<open>null\<close>: the
  deck builder guards every one of them, and its guards take the two alike. The
  revenue of a statement is also read by the growth computations, which do arithmetic
  on it, so it is an \<open>optional_number\<close>. The close of a price point and the market
  capitalisation of a peer are numbers, as their interfaces declare. A field is
  renamed where its name is taken in Isabelle or by another record: \<open>price_date\<close> is the
  \<open>date\<close> of a price point, \<open>share_labels\<close> and \<open>share_values\<close> are the \<open>labels\<close> and
  \<open>values\<close> of the market-share data, \<open>chart_type\<close> is the \<open>type\<close> of an exported
  chart. The length of a string counts its characters as bytes.
\<close>

record FMPIncomeStatement =
  date :: int
  calendarYear :: string
  revenue :: optional_number
  grossProfit :: "rat option"
  grossProfitRatio :: "rat option"
  ebitda :: "rat option"
  operatingIncome :: "rat option"
  netIncome :: "rat option"
  netIncomeRatio :: "rat option"
  epsdiluted :: "rat option"

record FMPHistoricalPrice =
  price_date :: int
  close :: rat

record PeerData =
  symbol :: string
  companyName :: string
  marketCap :: rat

section \<open>Derived metrics\<close>

subsection \<open>\<open>calculateRevenueGrowth\<close> (\<open>fmpClient.ts\<close>)\<close>

record growth_entry =
  year :: string
  growth :: jsnum

text \<open>\<open>((currRevenue - prevRevenue) / prevRevenue) * 100\<close>.\<close>

definition growth_value :: "jsnum \<Rightarrow> jsnum \<Rightarrow> jsnum" where
  "growth_value prevRevenue currRevenue =
     dbl_times (dbl_over (dbl_minus currRevenue prevRevenue) prevRevenue) (Num 100)"

text \<open>\<open>Math.round(growth * 10) / 10\<close>.\<close>

definition round_1dp :: "jsnum \<Rightarrow> jsnum" where
  "round_1dp g = dbl_over (js_round (dbl_times g (Num 10))) (Num 10)"

text \<open>
  The loop \<open>for (let i = 1; i < sorted.length; i++)\<close> over the pairs
  \<open>(sorted[i - 1], sorted[i])\<close>; a pair is skipped unless \<open>prevRevenue > 0\<close>, which is
  false for a revenue that is \<open>undefined\<close> or \<open>null\<close>.
\<close>

fun growth_loop :: "FMPIncomeStatement list \<Rightarrow> growth_entry list" where
  "growth_loop (p # c # rest) =
     (let prevRevenue = ToNumber (revenue p);
          currRevenue = ToNumber (revenue c)
      in if js_positive prevRevenue
         then [\<lparr>year = calendarYear c, growth = round_1dp (growth_value prevRevenue currRevenue)\<rparr>]
         else [])
     @ growth_loop (c # rest)"
| "growth_loop [p] = []"
| "growth_loop [] = []"

definition calculateRevenueGrowth :: "FMPIncomeStatement list \<Rightarrow> growth_entry list" where
  "calculateRevenueGrowth incomeStatements =
     (let sorted = js_sort (\<lambda>a b. Some (date a - date b)) incomeStatements
      in growth_loop sorted)"

subsection \<open>\<open>processRevenueData\<close> (\<open>chartHelpers.ts\<close>)\<close>

record RevenueChartData =
  labels :: "string list"
  revenues :: "jsnum list"
  growthRates :: "jsnum option list"

text \<open>The entries pushed by the loop; \<open>None\<close> is the \<open>null\<close> pushed in the else branch.\<close>

fun rate_loop :: "FMPIncomeStatement list \<Rightarrow> jsnum option list" where
  "rate_loop (p # c # rest) =
     (let prevRevenue = ToNumber (revenue p);
          currRevenue = ToNumber (revenue c)
      in if js_positive prevRevenue then Some (growth_value prevRevenue currRevenue) else None)
     # rate_loop (c # rest)"
| "rate_loop [p] = []"
| "rate_loop [] = []"

text \<open>\<open>revenues\<close> holds \<open>s.revenue / 1e9\<close> for each statement.\<close>

definition processRevenueData :: "FMPIncomeStatement list \<Rightarrow> RevenueChartData" where
  "processRevenueData incomeStatements =
     (let sorted = js_sort (\<lambda>a b. nan_minus (parseInt (calendarYear a)) (parseInt (calendarYear b)))
                     incomeStatements
      in \<lparr>labels = map calendarYear sorted,
          revenues = map (\<lambda>s. dbl_over (ToNumber (revenue s)) (Num (10 ^ 9))) sorted,
          growthRates = None # rate_loop sorted\<rparr>)"

subsection \<open>\<open>processPriceData\<close> (\<open>chartHelpers.ts\<close>)\<close>

text \<open>
  The labels are the dates of the sampled points rendered by \<open>toLocaleDateString\<close>; the
  model keeps the dates themselves.
\<close>

record PriceChartData =
  label_dates :: "int list"
  prices :: "rat list"
  normalizedPrices :: "rat list"

text \<open>\<open>sorted.filter((_, index) => index % step === 0)\<close> for a finite \<open>step \<ge> 1\<close>.\<close>

definition every_nth :: "nat \<Rightarrow> 'a list \<Rightarrow> 'a list" where
  "every_nth step xs = map snd (filter (\<lambda>(i, x). i mod step = 0) (enumerate 0 xs))"

text \<open>
  \<open>step = Math.max(1, Math.floor(sorted.length / maxPoints))\<close>. With \<open>maxPoints = 0\<close> the
  quotient is \<open>Infinity\<close> for a non-empty list, and \<open>index % Infinity === 0\<close> holds for
  index 0 only; for the empty list it is \<open>NaN\<close> and nothing is kept.
\<close>

definition sample_points :: "nat \<Rightarrow> 'a list \<Rightarrow> 'a list" where
  "sample_points maxPoints xs =
     (if maxPoints = 0 then take 1 xs
      else every_nth (max 1 (length xs div maxPoints)) xs)"

text \<open>\<open>sampled[0]?.close || 1\<close>; the result is never zero, so the division by it is exact.\<close>

definition startPrice :: "FMPHistoricalPrice list \<Rightarrow> rat" where
  "startPrice sampled =
     (case sampled of [] \<Rightarrow> 1 | p # _ \<Rightarrow> if close p = 0 then 1 else close p)"

definition processPriceData :: "FMPHistoricalPrice list \<Rightarrow> nat \<Rightarrow> PriceChartData" where
  "processPriceData historicalPrices maxPoints =
     (let sorted = js_sort (\<lambda>a b. Some (price_date a - price_date b)) historicalPrices;
          sampled = sample_points maxPoints sorted;
          start = startPrice sampled
      in \<lparr>label_dates = map price_date sampled,
          prices = map close sampled,
          normalizedPrices = map (\<lambda>p. close p / start * 100) sampled\<rparr>)"

subsection \<open>\<open>calculateMarketShare\<close> (\<open>chartHelpers.ts\<close>)\<close>

record MarketShareData =
  share_labels :: "string list"
  share_values :: "rat list"
  percentages :: "jsnum list"

text \<open>
  The entries \<open>{ name, revenue }\<close> are pairs. The subject comes first; a peer is added
  when \<open>peerRevenues.get(peer.symbol)\<close> is a positive number.
\<close>

definition share_companies ::
  "rat \<Rightarrow> string \<Rightarrow> PeerData list \<Rightarrow> (string \<rightharpoonup> rat) \<Rightarrow> (string \<times> rat) list" where
  "share_companies companyRevenue name peersData peerRevenues =
     (name, companyRevenue) #
     concat (map (\<lambda>peer. case peerRevenues (symbol peer) of
                            Some r \<Rightarrow> if r \<noteq> 0 \<and> r > 0 then [(companyName peer, r)] else []
                          | None \<Rightarrow> [])
                 peersData)"

definition share_label :: "string \<Rightarrow> string" where
  "share_label n = (if length n > 15 then take 15 n @ ''...'' else n)"

definition calculateMarketShare ::
  "rat \<Rightarrow> string \<Rightarrow> PeerData list \<Rightarrow> (string \<rightharpoonup> rat) \<Rightarrow> MarketShareData" where
  "calculateMarketShare companyRevenue name peersData peerRevenues =
     (let companies = share_companies companyRevenue name peersData peerRevenues;
          sorted = take 6 (js_sort (\<lambda>a b. Some (snd b - snd a)) companies);
          total = foldl (\<lambda>sum c. sum + snd c) 0 sorted
      in \<lparr>share_labels = map (\<lambda>c. share_label (fst c)) sorted,
          share_values = map snd sorted,
          percentages = map (\<lambda>c. js_times (js_div (snd c) total) 100) sorted\<rparr>)"

section \<open>Chart export (\<open>chartHelpers.ts\<close>)\<close>

datatype ChartType = pricePerformance | revenueGrowth | marketShare

record ChartExportResult =
  chart_type :: ChartType
  dataURL :: string
  title :: string

text \<open>
  A thrown value: an \<open>Error\<close> object with its message, or anything else. The catch
  blocks read it as \<open>error instanceof Error ? error.message : 'Unknown error'\<close>.
\<close>

datatype thrown = ErrorObj string | OtherThrown

definition thrown_message :: "thrown \<Rightarrow> string" where
  "thrown_message e = (case e of ErrorObj m \<Rightarrow> m | OtherThrown \<Rightarrow> ''Unknown error'')"

text \<open>
  One \<open>if\<close> block of \<open>generateAllCharts\<close>: when the condition holds the chart is
  rasterised and one result is pushed. \<open>renderChartToDataURL\<close> is the rasteriser
  outside the model; \<open>render t\<close> is its outcome on the configuration of chart \<open>t\<close>,
  a data URL or a thrown value, which the function does not catch.
\<close>

definition render_block ::
  "(ChartType \<Rightarrow> thrown + string) \<Rightarrow> bool \<Rightarrow> ChartType \<Rightarrow> string
   \<Rightarrow> thrown + ChartExportResult list" where
  "render_block render cond t ttl =
     (if cond
      then (case render t of
              Inl e \<Rightarrow> Inl e
            | Inr url \<Rightarrow> Inr [\<lparr>chart_type = t, dataURL = url, title = ttl\<rparr>])
      else Inr [])"

text \<open>
  The second half of the three conditions: the data of the chart is there and
  \<open>prices.length > 0\<close>, \<open>revenues.length > 0\<close> or \<open>values.length > 1\<close>.
\<close>

definition has_chart_data ::
  "PriceChartData option \<Rightarrow> RevenueChartData option \<Rightarrow> MarketShareData option
   \<Rightarrow> ChartType \<Rightarrow> bool" where
  "has_chart_data priceData revenueData marketShareData t =
     (case t of
        pricePerformance \<Rightarrow>
          (case priceData of None \<Rightarrow> False | Some d \<Rightarrow> length (prices d) > 0)
      | revenueGrowth \<Rightarrow>
          (case revenueData of None \<Rightarrow> False | Some d \<Rightarrow> length (revenues d) > 0)
      | marketShare \<Rightarrow>
          (case marketShareData of None \<Rightarrow> False | Some d \<Rightarrow> length (share_values d) > 1))"

text \<open>
  \<open>generateAllCharts\<close>; \<open>enabledCharts\<close> is the object of three flags, read as a function
  of the chart type. The company name and the theme colour only enter the chart
  configurations and are left out.
\<close>

definition generateAllCharts ::
  "(ChartType \<Rightarrow> thrown + string) \<Rightarrow> PriceChartData option \<Rightarrow> RevenueChartData option
   \<Rightarrow> MarketShareData option \<Rightarrow> (ChartType \<Rightarrow> bool) \<Rightarrow> thrown + ChartExportResult list" where
  "generateAllCharts render priceData revenueData marketShareData enabledCharts =
     (case render_block render
             (enabledCharts pricePerformance
              \<and> has_chart_data priceData revenueData marketShareData pricePerformance)
             pricePerformance ''Stock Price Performance'' of
        Inl e \<Rightarrow> Inl e
      | Inr r1 \<Rightarrow>
     (case render_block render
             (enabledCharts revenueGrowth
              \<and> has_chart_data priceData revenueData marketShareData revenueGrowth)
             revenueGrowth ''Revenue & Growth'' of
        Inl e \<Rightarrow> Inl e
      | Inr r2 \<Rightarrow>
     (case render_block render
             (enabledCharts marketShare
              \<and> has_chart_data priceData revenueData marketShareData marketShare)
             marketShare ''Market Share'' of
        Inl e \<Rightarrow> Inl e
      | Inr r3 \<Rightarrow> Inr (r1 @ r2 @ r3))))"

section \<open>The deck builder (\<open>pptxTemplates.ts\<close>)\<close>

subsection \<open>Inputs\<close>

record FMPCompanyProfile =
  symbol :: string
  companyName :: string
  price :: "rat option"
  mktCap :: "rat option"

record FMPRatiosTTM =
  peRatioTTM :: "rat option"
  enterpriseValueMultipleTTM :: "rat option"
  grossProfitMarginTTM :: "rat option"
  netProfitMarginTTM :: "rat option"
  returnOnEquityTTM :: "rat option"
  debtEquityRatioTTM :: "rat option"

record CompanyData =
  profile :: "FMPCompanyProfile option"
  incomeStatements :: "FMPIncomeStatement list"
  ratiosTTM :: "FMPRatiosTTM option"
  historicalPrices :: "FMPHistoricalPrice list"
  peersData :: "PeerData list"

datatype Rating = Buy | Outperform | Hold | Sell

datatype TimeHorizon = H12 | H24 | H36

record FormData =
  rating :: Rating
  timeHorizon :: TimeHorizon
  targetPrice :: "rat option"
  charts :: "ChartType \<Rightarrow> bool"
  investmentThesis :: string
  valuation :: string
  risksAndMitigants :: string

text \<open>\<open>rating.toUpperCase()\<close> and the string of a time horizon.\<close>

definition rating_upper :: "Rating \<Rightarrow> string" where
  "rating_upper r =
     (case r of Buy \<Rightarrow> ''BUY'' | Outperform \<Rightarrow> ''OUTPERFORM'' | Hold \<Rightarrow> ''HOLD'' | Sell \<Rightarrow> ''SELL'')"

definition horizon_text :: "TimeHorizon \<Rightarrow> string" where
  "horizon_text h = (case h of H12 \<Rightarrow> ''12'' | H24 \<Rightarrow> ''24'' | H36 \<Rightarrow> ''36'')"

subsection \<open>Small JavaScript idioms\<close>

text \<open>\<open>x || 0\<close> and \<open>x ?? 0\<close> on an optional number: an absent value becomes \<open>0\<close>.\<close>

definition or0 :: "rat option \<Rightarrow> rat" where
  "or0 v = (case v of None \<Rightarrow> 0 | Some x \<Rightarrow> x)"

text \<open>The truth value of an optional number: present and not zero.\<close>

definition truthy :: "rat option \<Rightarrow> bool" where
  "truthy v = (case v of None \<Rightarrow> False | Some x \<Rightarrow> x \<noteq> 0)"

text \<open>\<open>s || d\<close> on strings.\<close>

definition str_or :: "string \<Rightarrow> string \<Rightarrow> string" where
  "str_or s d = (if s = [] then d else s)"

text \<open>\<open>s.split('\n')[0]\<close>.\<close>

definition first_line :: "string \<Rightarrow> string" where
  "first_line s = takeWhile (\<lambda>c. c \<noteq> CHR 0x0A) s"

text \<open>\<open>lines.join('\n')\<close>.\<close>

fun join_lines :: "string list \<Rightarrow> string" where
  "join_lines [] = []"
| "join_lines [l] = l"
| "join_lines (l # ls) = l @ [CHR 0x0A] @ join_lines ls"

text \<open>The bullet and the check mark, as their UTF-8 bytes.\<close>

definition bullet :: string where
  "bullet = [CHR 0xE2, CHR 0x80, CHR 0xA2]"

definition check_mark :: string where
  "check_mark = [CHR 0xE2, CHR 0x9C, CHR 0x93]"

subsection \<open>Slides\<close>

text \<open>
  A slide is recorded by the builder method that made it, the strings given to its
  \<open>addText\<close> calls in call order, the cell texts of its table, the data of its image
  and the text of its \<open>addNotes\<close> call. Shapes, positions, fonts and colours are left out, and so is the
  footer. For the slides whose content no property below refers to, only the
  heading is kept.
\<close>

datatype slide_kind =
    Cover | TOC | InvestmentSummary | CompanyOverview | IndustryOverview | KeyMetrics
  | FinancialSummary | PeersComps | GrowthDrivers | InvestmentThesis | Valuation
  | RisksAndMitigants | Appendix | ChartSlide ChartType

record slide =
  kind :: slide_kind
  texts :: "string list"
  table :: "string list list option"
  image :: "string option"
  speaker_notes :: "string option"

definition profile_name :: "CompanyData \<Rightarrow> string" where
  "profile_name cd = (case profile cd of None \<Rightarrow> [] | Some p \<Rightarrow> companyName p)"

definition addCoverSlide :: "CompanyData \<Rightarrow> FormData \<Rightarrow> slide" where
  "addCoverSlide cd fd =
     \<lparr>kind = Cover, texts = [str_or (profile_name cd) ''Company Name''],
      table = None, image = None, speaker_notes = None\<rparr>"

definition addTableOfContents :: "CompanyData \<Rightarrow> FormData \<Rightarrow> slide" where
  "addTableOfContents cd fd =
     \<lparr>kind = TOC, texts = [''Table of Contents''], table = None, image = None, speaker_notes = None\<rparr>"

text \<open>
  \<open>addInvestmentSummary\<close>: the heading and the block \<open>operatingData\<close>, each row giving
  its label and its value. \<open>latestIncome\<close> is \<open>income[0]\<close>.
\<close>

definition pct1 :: "rat option \<Rightarrow> string" where
  "pct1 v = (if truthy v then toFixed 1 (or0 v * 100) @ ''%'' else ''N/A'')"

definition operatingData :: "CompanyData \<Rightarrow> (string \<times> string) list" where
  "operatingData cd =
     (let latestIncome = (case incomeStatements cd of [] \<Rightarrow> None | s # _ \<Rightarrow> Some s);
          ratio = (\<lambda>f. case ratiosTTM cd of None \<Rightarrow> None | Some r \<Rightarrow> f r)
      in [(''Revenue (LTM)'',
           safeText (case latestIncome of None \<Rightarrow> ''N/A''
                     | Some s \<Rightarrow> formatLargeNumber (known (revenue s)))),
          (''Gross Margin'', safeText (pct1 (ratio grossProfitMarginTTM))),
          (''EBITDA Margin'',
           safeText (case latestIncome of None \<Rightarrow> ''N/A''
                     | Some s \<Rightarrow>
                         (case known (revenue s) of None \<Rightarrow> ''N/A''
                          | Some r \<Rightarrow>
                              if r > 0 \<and> truthy (ebitda s)
                              then toFixed 1 (or0 (ebitda s) / r * 100) @ ''%''
                              else ''N/A''))),
          (''Net Margin'', safeText (pct1 (ratio netProfitMarginTTM))),
          (''ROE'', safeText (pct1 (ratio returnOnEquityTTM))),
          (''Debt/Equity'',
           safeText (if truthy (ratio debtEquityRatioTTM)
                     then toFixed 2 (or0 (ratio debtEquityRatioTTM)) @ ''x'' else ''N/A''))])"

definition addInvestmentSummary :: "CompanyData \<Rightarrow> FormData \<Rightarrow> slide" where
  "addInvestmentSummary cd fd =
     \<lparr>kind = InvestmentSummary,
      texts = ''OPERATING METRICS''
              # concat (map (\<lambda>row. [safeText (fst row), safeText (snd row)]) (operatingData cd)),
      table = None, image = None, speaker_notes = None\<rparr>"

definition addCompanyOverview :: "CompanyData \<Rightarrow> FormData \<Rightarrow> slide" where
  "addCompanyOverview cd fd =
     \<lparr>kind = CompanyOverview,
      texts = [safeText (''Company Overview | '' @ str_or (profile_name cd) ''Company'')],
      table = None, image = None, speaker_notes = None\<rparr>"

definition addIndustryOverview :: "CompanyData \<Rightarrow> FormData \<Rightarrow> slide" where
  "addIndustryOverview cd fd =
     \<lparr>kind = IndustryOverview, texts = [''Industry Overview''],
      table = None, image = None, speaker_notes = None\<rparr>"

text \<open>
  \<open>addKeyMetrics\<close>: the heading, and either the notice of the branch for an empty
  statement list or the table of financial performance. The six boxes at the top and
  the alternative metrics of the empty branch are left out.
\<close>

definition year_or0 :: "FMPIncomeStatement \<Rightarrow> string" where
  "year_or0 s = str_or (calendarYear s) ''0''"

definition fy_header :: "FMPIncomeStatement \<Rightarrow> string" where
  "fy_header s = safeText (''FY'' @ str_or (calendarYear s) ''N/A'')"

definition keyMetrics_sortedIncome :: "FMPIncomeStatement list \<Rightarrow> FMPIncomeStatement list" where
  "keyMetrics_sortedIncome income =
     take 4 (js_sort (\<lambda>a b. nan_minus (parseInt (year_or0 b)) (parseInt (year_or0 a)))
               (filter (\<lambda>s. calendarYear s \<noteq> []) income))"

text \<open>The rows \<open>metrics\<close>: name, the cell of a statement, and the cell of the TTM column.\<close>

definition keyMetrics_metrics ::
  "FMPRatiosTTM option \<Rightarrow> (string \<times> (FMPIncomeStatement \<Rightarrow> string) \<times> string) list" where
  "keyMetrics_metrics ratios =
     [(''Revenue'', (\<lambda>s. safeText (formatLargeNumber (Some (or0 (known (revenue s)))))), ''-''),
      (''Gross Profit'', (\<lambda>s. safeText (formatLargeNumber (Some (or0 (grossProfit s))))), ''-''),
      (''EBITDA'', (\<lambda>s. safeText (formatLargeNumber (Some (or0 (ebitda s))))), ''-''),
      (''Net Income'', (\<lambda>s. safeText (formatLargeNumber (Some (or0 (netIncome s))))), ''-''),
      (''Gross Margin'',
       (\<lambda>s. safeText (formatPercentage (Some (or0 (grossProfitRatio s) * 100)) 1)),
       (case ratios of None \<Rightarrow> ''-''
        | Some r \<Rightarrow> safeText (formatPercentage (Some (or0 (grossProfitMarginTTM r) * 100)) 1))),
      (''Net Margin'',
       (\<lambda>s. safeText (formatPercentage (Some (or0 (netIncomeRatio s) * 100)) 1)),
       (case ratios of None \<Rightarrow> ''-''
        | Some r \<Rightarrow> safeText (formatPercentage (Some (or0 (netProfitMarginTTM r) * 100)) 1))),
      (''EPS (Diluted)'', (\<lambda>s. safeText (''$'' @ toFixed 2 (or0 (epsdiluted s)))), ''-'')]"

definition keyMetrics_table :: "CompanyData \<Rightarrow> string list list" where
  "keyMetrics_table cd =
     (let sortedIncome = keyMetrics_sortedIncome (incomeStatements cd);
          ratios = ratiosTTM cd;
          headers = ''Metric'' # map fy_header sortedIncome
                    @ (if ratios \<noteq> None then [safeText ''TTM''] else [])
      in headers #
         map (\<lambda>(name, getValue, ttm).
                safeText name # map (\<lambda>stmt. safeText (getValue stmt)) sortedIncome
                @ (if ratios \<noteq> None then [safeText ttm] else []))
             (keyMetrics_metrics ratios))"

definition addKeyMetrics :: "CompanyData \<Rightarrow> FormData \<Rightarrow> slide" where
  "addKeyMetrics cd fd =
     (if length (incomeStatements cd) = 0
      then \<lparr>kind = KeyMetrics,
            texts = [''Key Metrics at a Glance'', ''VALUATION & TRADING METRICS'',
                     ''Note: Detailed financial data requires premium API access''],
            table = None, image = None, speaker_notes = None\<rparr>
      else \<lparr>kind = KeyMetrics,
            texts = [''Key Metrics at a Glance'', ''FINANCIAL PERFORMANCE''],
            table = Some (keyMetrics_table cd), image = None, speaker_notes = None\<rparr>)"

text \<open>\<open>addFinancialSummary\<close>: the heading and the notice or the table.\<close>

definition millions :: "rat option \<Rightarrow> string" where
  "millions v = safeText (toFixed 0 (or0 v / 10 ^ 6))"

definition financialSummary_table :: "CompanyData \<Rightarrow> string list list" where
  "financialSummary_table cd =
     (let sortedIncome =
            js_sort (\<lambda>a b. nan_minus (parseInt (year_or0 a)) (parseInt (year_or0 b)))
              (filter (\<lambda>s. calendarYear s \<noteq> []) (incomeStatements cd))
      in [''($ millions)'' # map fy_header sortedIncome,
          ''Revenue'' # map (\<lambda>stmt. millions (known (revenue stmt))) sortedIncome,
          ''Gross Profit'' # map (\<lambda>stmt. millions (grossProfit stmt)) sortedIncome,
          ''EBITDA'' # map (\<lambda>stmt. millions (ebitda stmt)) sortedIncome,
          ''Operating Income'' # map (\<lambda>stmt. millions (operatingIncome stmt)) sortedIncome,
          ''Net Income'' # map (\<lambda>stmt. millions (netIncome stmt)) sortedIncome])"

definition addFinancialSummary :: "CompanyData \<Rightarrow> FormData \<Rightarrow> slide" where
  "addFinancialSummary cd fd =
     (if length (incomeStatements cd) = 0
      then \<lparr>kind = FinancialSummary,
            texts = [''Financial Summary'',
                     join_lines [''Financial statement data requires premium API access.'', '''',
                       ''Please add financial data manually or upgrade your FMP subscription.'']],
            table = None, image = None, speaker_notes = None\<rparr>
      else \<lparr>kind = FinancialSummary, texts = [''Financial Summary''],
            table = Some (financialSummary_table cd), image = None, speaker_notes = None\<rparr>)"

definition addChartSlide :: "ChartExportResult \<Rightarrow> slide" where
  "addChartSlide chart =
     \<lparr>kind = ChartSlide (chart_type chart), texts = [title chart],
      table = None, image = Some (dataURL chart), speaker_notes = None\<rparr>"

definition addPeersComps :: "CompanyData \<Rightarrow> FormData \<Rightarrow> slide" where
  "addPeersComps cd fd =
     \<lparr>kind = PeersComps, texts = [''Peer Comparison''], table = None, image = None, speaker_notes = None\<rparr>"

definition addGrowthDrivers :: "CompanyData \<Rightarrow> FormData \<Rightarrow> slide" where
  "addGrowthDrivers cd fd =
     \<lparr>kind = GrowthDrivers, texts = [''Growth Drivers & Business Model''],
      table = None, image = None, speaker_notes = None\<rparr>"

text \<open>
  \<open>addInvestmentThesis\<close>, all of its \<open>addText\<close> calls. The field \<open>icon\<close> of a section is
  never drawn.
\<close>

definition thesisText :: "CompanyData \<Rightarrow> FormData \<Rightarrow> string" where
  "thesisText cd fd =
     (if investmentThesis fd \<noteq> []
      then first_line (investmentThesis fd)
      else ''We recommend '' @ rating_upper (rating fd) @ '' on ''
           @ str_or (profile_name cd) ''the company'' @ '' based on [YOUR THESIS HERE]'')"

definition bullet_lines :: "string list \<Rightarrow> string" where
  "bullet_lines items = join_lines (map (\<lambda>i. bullet @ '' '' @ i) items)"

definition thesis_sections :: "(string \<times> string) list" where
  "thesis_sections =
     [(''KEY CATALYSTS'',
       bullet_lines [''Product launches / expansion'', ''Earnings momentum'',
                     ''Market share gains'', ''M&A opportunities'']),
      (''SUPPORTING EVIDENCE'',
       bullet_lines [''Financial metrics'', ''Competitive positioning'',
                     ''Industry tailwinds'', ''Management track record'']),
      (''WHY NOW?'',
       bullet_lines [''Valuation opportunity'', ''Near-term catalysts'',
                     ''Sentiment inflection'', ''Risk/reward favorable''])]"

definition addInvestmentThesis :: "CompanyData \<Rightarrow> FormData \<Rightarrow> slide" where
  "addInvestmentThesis cd fd =
     \<lparr>kind = InvestmentThesis,
      texts = [''Investment Thesis'', ''ACTION REQUIRED'', ''CORE THESIS'', thesisText cd fd]
              @ concat (map (\<lambda>section. [fst section, snd section]) thesis_sections)
              @ [''Note: Replace placeholder content with your specific investment thesis, catalysts, and supporting analysis.''],
      table = None, image = None,
      speaker_notes = Some ''USER ACTION REQUIRED: Replace the placeholder text with your investment thesis. Include your core thesis, catalysts, and supporting evidence.''\<rparr>"

text \<open>
  \<open>addValuation\<close>, all of its \<open>addText\<close> calls. \<open>Number(x) || 0\<close> on an optional number is
  \<open>or0\<close>. The form field \<open>valuation\<close> is not read.
\<close>

definition priceBoxes :: "CompanyData \<Rightarrow> FormData \<Rightarrow> (string \<times> string) list" where
  "priceBoxes cd fd =
     (let currentPrice = or0 (case profile cd of None \<Rightarrow> None | Some p \<Rightarrow> price p);
          targetPrice = or0 (targetPrice fd);
          upside = (if currentPrice > 0 \<and> targetPrice > 0
                    then (targetPrice - currentPrice) / currentPrice * 100 else 0)
      in [(''CURRENT PRICE'',
           if currentPrice > 0 then ''$'' @ toFixed 2 currentPrice else ''N/A''),
          (''TARGET PRICE'',
           if targetPrice \<noteq> 0 then ''$'' @ toFixed 2 targetPrice else ''TBD''),
          (''UPSIDE/DOWNSIDE'',
           if upside \<noteq> 0
           then (if upside \<ge> 0 then ''+'' else '''') @ toFixed 1 upside @ ''%'' else ''TBD''),
          (''TIME HORIZON'', horizon_text (timeHorizon fd) @ '' Months'')])"

definition valuation_methods :: "CompanyData \<Rightarrow> (string \<times> string list) list" where
  "valuation_methods cd =
     (let ratio = (\<lambda>f. case ratiosTTM cd of None \<Rightarrow> None | Some r \<Rightarrow> f r)
      in [(''DCF ANALYSIS'',
           [''Revenue Growth: [X]% CAGR'', ''Terminal Growth: [X]%'', ''WACC: [X]%'',
            ''Implied Value: $[XX]'']),
          (''COMPARABLE COMPANIES'',
           [''P/E: '' @ (if truthy (ratio peRatioTTM)
                         then formatRatio (ratio peRatioTTM) 1 else ''[X]x''),
            ''EV/EBITDA: '' @ (if truthy (ratio enterpriseValueMultipleTTM)
                               then formatRatio (ratio enterpriseValueMultipleTTM) 1
                               else ''[X]x''),
            ''Peer Median: [X]x'', ''Implied Range: $[XX]-$[XX]'']),
          (''PRECEDENT TRANSACTIONS'',
           [''Transaction Multiple: [X]x'', ''Premium Paid: [X]%'', ''Control Premium: [X]%'',
            ''Implied Value: $[XX]''])])"

definition addValuation :: "CompanyData \<Rightarrow> FormData \<Rightarrow> slide" where
  "addValuation cd fd =
     \<lparr>kind = Valuation,
      texts = [''Valuation Analysis'', ''ACTION REQUIRED'']
              @ concat (map (\<lambda>box. [fst box, snd box]) (priceBoxes cd fd))
              @ concat (map (\<lambda>method. fst method
                                # map (\<lambda>item. safeText (bullet @ '' '' @ item)) (snd method))
                          (valuation_methods cd))
              @ [''VALUATION SUMMARY'', ''[Add valuation range football field chart]''],
      table = None, image = None,
      speaker_notes = Some ''USER ACTION REQUIRED: Replace placeholder text with your valuation analysis. Include DCF assumptions, comparable multiples, and target price derivation.''\<rparr>"

text \<open>
  \<open>addRisksAndMitigants\<close>, all of its \<open>addText\<close> calls; a row of \<open>risks\<close> is its category,
  risk and mitigant. The form field \<open>risksAndMitigants\<close> is not read.
\<close>

definition risks :: "(string \<times> string \<times> string) list" where
  "risks =
     [(''MARKET / MACRO'', ''Economic downturn, interest rate changes, market volatility'',
       ''Diversified revenue, strong balance sheet, defensive positioning''),
      (''COMPETITIVE'', ''New entrants, pricing pressure, technology disruption'',
       ''Strong moat, brand loyalty, R&D investment, scale advantages''),
      (''EXECUTION'', ''Management changes, integration risks, operational issues'',
       ''Experienced team, track record, operational improvements''),
      (''REGULATORY'', ''Policy changes, compliance costs, legal challenges'',
       ''Proactive compliance, regulatory expertise, diversification''),
      (''VALUATION'', ''Multiple compression, earnings miss, sentiment shift'',
       ''Attractive entry point, catalyst visibility, margin of safety'')]"

definition addRisksAndMitigants :: "CompanyData \<Rightarrow> FormData \<Rightarrow> slide" where
  "addRisksAndMitigants cd fd =
     \<lparr>kind = RisksAndMitigants,
      texts = [''Risks & Mitigants'', ''ACTION REQUIRED'', ''KEY RISKS'', ''MITIGATING FACTORS'']
              @ concat (map (\<lambda>(category, risk, mitigant).
                               [category, risk, safeText (check_mark @ '' '' @ mitigant)]) risks)
              @ [''Note: Replace placeholder risks and mitigants with company-specific analysis''],
      table = None, image = None,
      speaker_notes = Some ''USER ACTION REQUIRED: Replace placeholder text with specific risks to your investment thesis and how they can be mitigated.''\<rparr>"

definition addAppendix :: "CompanyData \<Rightarrow> FormData \<Rightarrow> slide" where
  "addAppendix cd fd =
     \<lparr>kind = Appendix, texts = [''Appendix'', ''Data Sources & Disclaimers''],
      table = None, image = None, speaker_notes = None\<rparr>"

subsection \<open>\<open>PitchDeckBuilder.build\<close>\<close>

text \<open>
  The table \<open>slides\<close> of \<open>build\<close>: the name of each step and the method it calls, in the
  order of the source.
\<close>

definition slide_steps :: "(string \<times> (CompanyData \<Rightarrow> FormData \<Rightarrow> slide)) list" where
  "slide_steps =
     [(''Cover'', addCoverSlide),
      (''TOC'', addTableOfContents),
      (''InvestmentSummary'', addInvestmentSummary),
      (''CompanyOverview'', addCompanyOverview),
      (''IndustryOverview'', addIndustryOverview),
      (''KeyMetrics'', addKeyMetrics),
      (''FinancialSummary'', addFinancialSummary),
      (''PeersComps'', addPeersComps),
      (''GrowthDrivers'', addGrowthDrivers),
      (''InvestmentThesis'', addInvestmentThesis),
      (''Valuation'', addValuation),
      (''RisksAndMitigants'', addRisksAndMitigants),
      (''Appendix'', addAppendix)]"

text \<open>
  Whether a step throws depends on the presentation library and on run-time values
  outside the model, so it is a parameter: \<open>slide_fault name\<close> is the value thrown by
  the step of that name, if it throws, and \<open>chart_fault t\<close> the value thrown by
  \<open>addChartSlide\<close> on the chart of type \<open>t\<close>. The deck is the list of slides added so
  far; an error is the message of the \<open>Error\<close> that \<open>build\<close> throws.
\<close>

fun run_slide_steps ::
  "(string \<Rightarrow> thrown option) \<Rightarrow> CompanyData \<Rightarrow> FormData
   \<Rightarrow> (string \<times> (CompanyData \<Rightarrow> FormData \<Rightarrow> slide)) list \<Rightarrow> slide list
   \<Rightarrow> string + slide list" where
  "run_slide_steps slide_fault cd fd [] deck = Inr deck"
| "run_slide_steps slide_fault cd fd ((name, fn) # rest) deck =
     (case slide_fault name of
        Some e \<Rightarrow> Inl (''Failed on slide \"'' @ name @ ''\": '' @ thrown_message e)
      | None \<Rightarrow> run_slide_steps slide_fault cd fd rest (deck @ [fn cd fd]))"

text \<open>
  The three blocks of the second \<open>try\<close>: \<open>this.charts.find((c) => c.type === t)\<close> and, when
  a chart is found, \<open>addChartSlide\<close>, for the types in the order of the source.
\<close>

definition chart_order :: "ChartType list" where
  "chart_order = [revenueGrowth, pricePerformance, marketShare]"

fun add_chart_slides ::
  "(ChartType \<Rightarrow> thrown option) \<Rightarrow> ChartExportResult list \<Rightarrow> ChartType list \<Rightarrow> slide list
   \<Rightarrow> string + slide list" where
  "add_chart_slides chart_fault chs [] deck = Inr deck"
| "add_chart_slides chart_fault chs (t # ts) deck =
     (case find (\<lambda>c. chart_type c = t) chs of
        None \<Rightarrow> add_chart_slides chart_fault chs ts deck
      | Some chart \<Rightarrow>
          (case chart_fault t of
             Some e \<Rightarrow> Inl (''Failed on chart slide: '' @ thrown_message e)
           | None \<Rightarrow> add_chart_slides chart_fault chs ts (deck @ [addChartSlide chart])))"

text \<open>The deck at the moment \<open>build\<close> reaches the serialisation.\<close>

definition build_deck ::
  "(string \<Rightarrow> thrown option) \<Rightarrow> (ChartType \<Rightarrow> thrown option)
   \<Rightarrow> CompanyData \<Rightarrow> FormData \<Rightarrow> ChartExportResult list \<Rightarrow> string + slide list" where
  "build_deck slide_fault chart_fault cd fd chs =
     (case run_slide_steps slide_fault cd fd slide_steps [] of
        Inl m \<Rightarrow> Inl m
      | Inr deck \<Rightarrow> add_chart_slides chart_fault chs chart_order deck)"

text \<open>
  \<open>build\<close>; \<open>write deck\<close> is the outcome of \<open>this.pptx.write\<close> on the deck, the blob or a
  thrown value.
\<close>

definition build ::
  "(string \<Rightarrow> thrown option) \<Rightarrow> (ChartType \<Rightarrow> thrown option) \<Rightarrow> (slide list \<Rightarrow> thrown + 'blob)
   \<Rightarrow> CompanyData \<Rightarrow> FormData \<Rightarrow> ChartExportResult list \<Rightarrow> string + 'blob" where
  "build slide_fault chart_fault write cd fd chs =
     (case build_deck slide_fault chart_fault cd fd chs of
        Inl m \<Rightarrow> Inl m
      | Inr deck \<Rightarrow>
          (case write deck of
             Inl e \<Rightarrow> Inl (''Failed generating PowerPoint file: '' @ thrown_message e)
           | Inr blob \<Rightarrow> Inr blob))"

section \<open>Data aggregation\<close>

subsection \<open>\<open>fmpRequest\<close> and \<open>fetchAllCompanyData\<close> (\<open>fmpClient.ts\<close>)\<close>

datatype api_code =
  AUTH_ERROR | FORBIDDEN | RATE_LIMIT | API_ERROR | TIMEOUT | NETWORK_ERROR | NOT_FOUND

text \<open>
  An error thrown on the primary path: the objects of \<open>createAPIError\<close> carry a code, any
  other thrown value has none.
\<close>

record APIError =
  message :: string
  code :: "api_code option"

definition createAPIError :: "string \<Rightarrow> api_code \<Rightarrow> APIError" where
  "createAPIError msg c = \<lparr>message = msg, code = Some c\<rparr>"

text \<open>
  The outcome of \<open>axios.get\<close>: the payload, an HTTP error status with the message
  \<open>response.data?.message || axiosError.message\<close>, a request aborted by the timeout
  (\<open>ECONNABORTED\<close>), or another failure without a response. The payload is the array
  the endpoint returns, after the unwrapping of \<open>{ value: [...] }\<close>.
\<close>

datatype 'a axios_result = Response "'a list" | HttpError nat string | Aborted | NoResponse

definition fmpRequest :: "bool \<Rightarrow> 'a axios_result \<Rightarrow> APIError + 'a list" where
  "fmpRequest allowEmpty r =
     (case r of
        Response d \<Rightarrow> Inr d
      | HttpError status msg \<Rightarrow>
          if status = 401
          then Inl (createAPIError ''Invalid API key. Please check your FMP_API_KEY.'' AUTH_ERROR)
          else if status = 403
          then (if allowEmpty then Inr []
                else Inl (createAPIError
                  ''API access forbidden. Your plan may not include this endpoint.'' FORBIDDEN))
          else if status = 429
          then Inl (createAPIError ''API rate limit exceeded. Please try again later.'' RATE_LIMIT)
          else Inl (createAPIError (''API error: '' @ msg) API_ERROR)
      | Aborted \<Rightarrow>
          Inl (createAPIError ''Request timeout. The API is taking too long to respond.'' TIMEOUT)
      | NoResponse \<Rightarrow>
          Inl (createAPIError ''Network error. Please check your connection.'' NETWORK_ERROR))"

text \<open>\<open>getCompanyProfile\<close>: \<open>data?.[0] || null\<close> (the cache is not modelled).\<close>

definition getCompanyProfile ::
  "FMPCompanyProfile axios_result \<Rightarrow> APIError + FMPCompanyProfile option" where
  "getCompanyProfile r =
     (case fmpRequest False r of
        Inl e \<Rightarrow> Inl e
      | Inr d \<Rightarrow> Inr (case d of [] \<Rightarrow> None | p # _ \<Rightarrow> Some p))"

text \<open>
  \<open>fetchAllCompanyData\<close>: the profile is fetched first and its absence is the error
  \<open>NOT_FOUND\<close>. The later fetches are summarised by \<open>others\<close>: the rejection with which
  they fail, if one of them fails with an error that \<open>safeFetch\<close> does not absorb, or
  the data they assemble.
\<close>

definition fetchAllCompanyData ::
  "string \<Rightarrow> FMPCompanyProfile axios_result \<Rightarrow> (APIError + CompanyData)
   \<Rightarrow> APIError + CompanyData" where
  "fetchAllCompanyData upperSymbol profile_response others =
     (case getCompanyProfile profile_response of
        Inl e \<Rightarrow> Inl e
      | Inr None \<Rightarrow> Inl (createAPIError (''Company not found: '' @ upperSymbol) NOT_FOUND)
      | Inr (Some p) \<Rightarrow>
          (case others of
             Inl e \<Rightarrow> Inl e
           | Inr cd \<Rightarrow> Inr (cd\<lparr>profile := Some p\<rparr>)))"

subsection \<open>The endpoint \<open>company-data\<close> with the Yahoo fallback\<close>

text \<open>\<open>toUpperCase\<close> on ASCII text.\<close>

definition upper_char :: "char \<Rightarrow> char" where
  "upper_char c =
     (case map_of (zip ''abcdefghijklmnopqrstuvwxyz'' ''ABCDEFGHIJKLMNOPQRSTUVWXYZ'') c of
        None \<Rightarrow> c
      | Some u \<Rightarrow> u)"

definition toUpperCase :: "string \<Rightarrow> string" where
  "toUpperCase s = map upper_char s"

datatype provider = FMP | Yahoo

datatype response_body = Data CompanyData | ErrorBody string string

record response =
  status :: nat
  body :: response_body

text \<open>
  \<open>handler\<close>. \<open>symbol_query\<close> is \<open>req.query.symbol\<close>, \<open>None\<close> when it is not a string; \<open>apiKey\<close> is
  the environment variable. \<open>fmp\<close> and \<open>yahoo\<close> give the outcome of
  \<open>fetchAllCompanyData\<close> and of \<open>fetchYahooCompanyData\<close> on a symbol. The result is the
  response together with the providers that were called, in call order.
\<close>

definition yahoo_step ::
  "string \<Rightarrow> (string \<Rightarrow> thrown + CompanyData) \<Rightarrow> provider list \<Rightarrow> response \<times> provider list" where
  "yahoo_step upperSymbol yahoo called =
     (case yahoo upperSymbol of
        Inr companyData \<Rightarrow>
          if profile companyData \<noteq> None
          then (\<lparr>status = 200, body = Data companyData\<rparr>, called @ [Yahoo])
          else (\<lparr>status = 404,
                 body = ErrorBody ''Company not found''
                          (''No data found for symbol: '' @ upperSymbol)\<rparr>, called @ [Yahoo])
      | Inl e \<Rightarrow>
          (\<lparr>status = 500,
            body = ErrorBody ''Failed to fetch company data''
                     (''Could not fetch data for '' @ upperSymbol
                      @ '' from any source. Please check the symbol and try again.'')\<rparr>,
           called @ [Yahoo]))"

definition handler ::
  "string \<Rightarrow> string option \<Rightarrow> string option \<Rightarrow> (string \<Rightarrow> APIError + CompanyData)
   \<Rightarrow> (string \<Rightarrow> thrown + CompanyData) \<Rightarrow> response \<times> provider list" where
  "handler method symbol_query apiKey fmp yahoo =
     (if method \<noteq> ''GET''
      then (\<lparr>status = 405, body = ErrorBody ''Method not allowed'' ''''\<rparr>, [])
      else case symbol_query of
        None \<Rightarrow>
          (\<lparr>status = 400, body = ErrorBody ''Symbol required'' ''Please provide a stock symbol''\<rparr>, [])
      | Some s \<Rightarrow>
          if s = []
          then (\<lparr>status = 400,
                 body = ErrorBody ''Symbol required'' ''Please provide a stock symbol''\<rparr>, [])
          else
            let upperSymbol = toUpperCase s
            in if apiKey \<noteq> None \<and> apiKey \<noteq> Some []
               then (case fmp upperSymbol of
                       Inr companyData \<Rightarrow>
                         if profile companyData \<noteq> None
                         then (\<lparr>status = 200, body = Data companyData\<rparr>, [FMP])
                         else yahoo_step upperSymbol yahoo [FMP]
                     | Inl apiError \<Rightarrow>
                         if code apiError \<noteq> Some RATE_LIMIT \<and> code apiError \<noteq> Some NETWORK_ERROR
                            \<and> code apiError \<noteq> Some TIMEOUT
                         then (if code apiError = Some AUTH_ERROR
                               then (\<lparr>status = 401,
                                      body = ErrorBody ''Invalid API key'' (message apiError)\<rparr>,
                                     [FMP])
                               else yahoo_step upperSymbol yahoo [FMP])
                         else yahoo_step upperSymbol yahoo [FMP])
               else yahoo_step upperSymbol yahoo [])"

section \<open>Concrete inputs\<close>

text \<open>Fault parameters: no step throws, or exactly the step \<open>k\<close> throws \<open>e\<close>.\<close>

definition no_fault :: "'k \<Rightarrow> thrown option" where
  "no_fault k = None"

definition only_fault :: "'k \<Rightarrow> thrown \<Rightarrow> 'k \<Rightarrow> thrown option" where
  "only_fault k e x = (if x = k then Some e else None)"

text \<open>A statement of fiscal year 2023 that carries a revenue and nothing else.\<close>

definition statement_2023 :: FMPIncomeStatement where
  "statement_2023 =
     \<lparr>date = 1703980800000, calendarYear = ''2023'', revenue = Number 1000000,
      grossProfit = None, grossProfitRatio = None, ebitda = None, operatingIncome = None,
      netIncome = None, netIncomeRatio = None, epsdiluted = None\<rparr>"

definition example_company :: CompanyData where
  "example_company =
     \<lparr>profile = Some \<lparr>symbol = ''AAPL'', companyName = ''Apple Inc.'', price = Some 150,
                       mktCap = None\<rparr>,
      incomeStatements = [statement_2023], ratiosTTM = None, historicalPrices = [],
      peersData = []\<rparr>"

definition all_charts :: "ChartType \<Rightarrow> bool" where
  "all_charts t = True"

definition example_form :: FormData where
  "example_form =
     \<lparr>rating = Buy, timeHorizon = H12, targetPrice = Some 200, charts = all_charts,
      investmentThesis = '''', valuation = '''', risksAndMitigants = ''''\<rparr>"

definition chart_image :: "ChartType \<Rightarrow> ChartExportResult" where
  "chart_image t = \<lparr>chart_type = t, dataURL = ''data:image/png;base64,AAAA'', title = ''Chart''\<rparr>"

text \<open>The three charts in the order in which \<open>generateAllCharts\<close> pushes them.\<close>

definition three_charts :: "ChartExportResult list" where
  "three_charts = [chart_image pricePerformance, chart_image revenueGrowth, chart_image marketShare]"

text \<open>A serialiser that succeeds, returning the number of slides written.\<close>

definition write_size :: "slide list \<Rightarrow> thrown + nat" where
  "write_size deck = Inr (length deck)"

text \<open>A serialiser that throws.\<close>

definition write_fails :: "slide list \<Rightarrow> thrown + nat" where
  "write_fails deck = Inl (ErrorObj ''disk full'')"

text \<open>A rasteriser that succeeds on every chart, with an image of its own for each.\<close>

definition render_ok :: "ChartType \<Rightarrow> thrown + string" where
  "render_ok t =
     (case t of
        pricePerformance \<Rightarrow> Inr ''data:image/png;base64,PRICE''
      | revenueGrowth \<Rightarrow> Inr ''data:image/png;base64,REVENUE''
      | marketShare \<Rightarrow> Inr ''data:image/png;base64,SHARE'')"

text \<open>A rasteriser that throws on the market-share chart.\<close>

definition render_share_fails :: "ChartType \<Rightarrow> thrown + string" where
  "render_share_fails t =
     (if t = marketShare then Inl (ErrorObj ''canvas'') else render_ok t)"

text \<open>Price data with two points, and market-share data with two entities.\<close>

definition example_prices :: PriceChartData where
  "example_prices = \<lparr>label_dates = [1, 2], prices = [10, 20], normalizedPrices = [100, 200]\<rparr>"

definition example_shares :: MarketShareData where
  "example_shares =
     \<lparr>share_labels = [''Subject'', ''Peer''], share_values = [30, 10],
      percentages = [Num 75, Num 25]\<rparr>"

text \<open>Revenue data of a single year.\<close>

definition example_revenue :: RevenueChartData where
  "example_revenue = \<lparr>labels = [''2023''], revenues = [Num 1], growthRates = [None]\<rparr>"

text \<open>
  The three results that \<open>generateAllCharts\<close> pushes when the rasteriser is \<open>render_ok\<close>,
  and the list it returns when all three charts are enabled and have data.
\<close>

definition price_image :: ChartExportResult where
  "price_image =
     \<lparr>chart_type = pricePerformance, dataURL = ''data:image/png;base64,PRICE'',
      title = ''Stock Price Performance''\<rparr>"

definition revenue_image :: ChartExportResult where
  "revenue_image =
     \<lparr>chart_type = revenueGrowth, dataURL = ''data:image/png;base64,REVENUE'',
      title = ''Revenue & Growth''\<rparr>"

definition share_image :: ChartExportResult where
  "share_image =
     \<lparr>chart_type = marketShare, dataURL = ''data:image/png;base64,SHARE'',
      title = ''Market Share''\<rparr>"

definition rendered_charts :: "ChartExportResult list" where
  "rendered_charts = [price_image, revenue_image, share_image]"

text \<open>The form of the example with every chart switched off.\<close>

definition no_charts :: "ChartType \<Rightarrow> bool" where
  "no_charts t = False"

definition no_charts_form :: FormData where
  "no_charts_form = example_form\<lparr>charts := no_charts\<rparr>"

text \<open>The form with the price chart and the market-share chart switched on.\<close>

definition two_charts :: "ChartType \<Rightarrow> bool" where
  "two_charts t = (t \<noteq> revenueGrowth)"

definition two_charts_form :: FormData where
  "two_charts_form = example_form\<lparr>charts := two_charts\<rparr>"

text \<open>Market-share data with the subject alone.\<close>

definition lone_share :: MarketShareData where
  "lone_share = \<lparr>share_labels = [''Subject''], share_values = [30], percentages = [Num 100]\<rparr>"

text \<open>
  The data \<open>fetchYahooCompanyData\<close> returns for a known symbol: a profile and ratios, and
  no statements.
\<close>

definition yahoo_company :: CompanyData where
  "yahoo_company =
     \<lparr>profile = Some \<lparr>symbol = ''ZZZZ'', companyName = ''Zed Corp'', price = Some 10,
                       mktCap = Some 0\<rparr>,
      incomeStatements = [],
      ratiosTTM = Some \<lparr>peRatioTTM = Some 0, enterpriseValueMultipleTTM = Some 0,
                        grossProfitMarginTTM = Some 0, netProfitMarginTTM = Some 0,
                        returnOnEquityTTM = Some 0, debtEquityRatioTTM = Some 0\<rparr>,
      historicalPrices = [], peersData = []\<rparr>"

definition yahoo_found :: "string \<Rightarrow> thrown + CompanyData" where
  "yahoo_found upperSymbol = Inr yahoo_company"

text \<open>The primary provider answers the profile request with an empty array.\<close>

definition fmp_empty_profile :: "string \<Rightarrow> APIError + CompanyData" where
  "fmp_empty_profile upperSymbol = fetchAllCompanyData upperSymbol (Response []) (Inr example_company)"

text \<open>The primary provider answers the profile request with HTTP status 429.\<close>

definition fmp_rate_limited :: "string \<Rightarrow> APIError + CompanyData" where
  "fmp_rate_limited upperSymbol =
     fetchAllCompanyData upperSymbol (HttpError 429 ''Limit Reach'') (Inr example_company)"

text \<open>A statement with a date, a year and a revenue, and no other figure.\<close>

definition revenue_statement :: "int \<Rightarrow> string \<Rightarrow> optional_number \<Rightarrow> FMPIncomeStatement" where
  "revenue_statement d y r =
     \<lparr>date = d, calendarYear = y, revenue = r, grossProfit = None, grossProfitRatio = None,
      ebitda = None, operatingIncome = None, netIncome = None, netIncomeRatio = None,
      epsdiluted = None\<rparr>"

text \<open>Three years of growing revenue, latest first, and a series whose first year has revenue 0.\<close>

definition growth_series :: "FMPIncomeStatement list" where
  "growth_series =
     [revenue_statement 3 ''2022'' (Number 121), revenue_statement 1 ''2020'' (Number 100),
      revenue_statement 2 ''2021'' (Number 110)]"

definition zero_base_series :: "FMPIncomeStatement list" where
  "zero_base_series =
     [revenue_statement 1 ''2020'' (Number 0), revenue_statement 2 ''2021'' (Number 10)]"

text \<open>
  Five years, latest first: revenue 10 in 2019, 0 in 2020, 80 in 2021, 103 in 2022 and
  \<open>null\<close> in 2023.
\<close>

definition mixed_series :: "FMPIncomeStatement list" where
  "mixed_series =
     [revenue_statement 5 ''2023'' Null, revenue_statement 4 ''2022'' (Number 103),
      revenue_statement 3 ''2021'' (Number 80), revenue_statement 2 ''2020'' (Number 0),
      revenue_statement 1 ''2019'' (Number 10)]"

text \<open>A price series with the same point twice, and one whose earliest close is 0.\<close>

definition repeated_prices :: "FMPHistoricalPrice list" where
  "repeated_prices = [\<lparr>price_date = 1, close = 10\<rparr>, \<lparr>price_date = 1, close = 10\<rparr>]"

definition zero_start_prices :: "FMPHistoricalPrice list" where
  "zero_start_prices = [\<lparr>price_date = 2, close = 20\<rparr>, \<lparr>price_date = 1, close = 0\<rparr>]"

definition rising_prices :: "FMPHistoricalPrice list" where
  "rising_prices =
     [\<lparr>price_date = 3, close = 30\<rparr>, \<lparr>price_date = 1, close = 20\<rparr>, \<lparr>price_date = 2, close = 25\<rparr>]"




text \<open>
  The form with all three free-text fields filled in; the thesis has two lines.
\<close>

definition user_text_form :: FormData where
  "user_text_form =
     example_form\<lparr>investmentThesis := ''Services growth'' @ [CHR 0x0A] @ ''Buybacks'',
                   valuation := ''DCF implies $250'',
                   risksAndMitigants := ''Key risk: regulation''\<rparr>"

section \<open>Properties\<close>

subsection \<open>Evaluating the rendering functions\<close>

declare dec_string.simps [simp del] group3.simps [simp del]

lemma floor_rat_numeral_div:
  "\<lfloor>(numeral a :: rat) / numeral b\<rfloor> = numeral a div numeral b"
  by (metis floor_divide_of_int_eq of_int_numeral)

lemma floor_rat_minus_numeral_div:
  "\<lfloor>- ((numeral a :: rat) / numeral b)\<rfloor> = - numeral a div numeral b"
  by (metis floor_divide_of_int_eq of_int_numeral of_int_minus minus_divide_left)

lemma dec_string_digit: "n < 10 \<Longrightarrow> dec_string n = [digit_char n]"
  by (simp add: dec_string.simps)

lemma dec_string_step:
  "10 \<le> n \<Longrightarrow> dec_string n = dec_string (n div 10) @ [digit_char (n mod 10)]"
  by (subst dec_string.simps) simp

lemma group3_short: "length s \<le> 3 \<Longrightarrow> group3 s = s"
  by (simp add: group3.simps)

lemma group3_step:
  "3 < length s \<Longrightarrow>
   group3 s = group3 (take (length s - 3) s) @ '','' @ drop (length s - 3) s"
  by (subst group3.simps) simp

lemma frac_digits_numeral:
  "frac_digits (numeral k) n = frac_digits (pred_numeral k) (n div 10) @ [digit_char (n mod 10)]"
proof -
  have "numeral k = Suc (pred_numeral k)" by (rule numeral_eq_Suc)
  then show ?thesis by (simp only: frac_digits.simps)
qed

lemmas render_simps =
  floor_rat_numeral_div floor_rat_minus_numeral_div dec_string_digit dec_string_step
  group3_short group3_step frac_digits_numeral digit_char_def round_magnitude_def Math_round_def
  toFixed_def toLocaleString_def strip_zeros_def Let_def
  formatLargeNumber_def formatPercentage_def formatRatio_def

lemma digit_char_is_digit: "d < 10 \<Longrightarrow> digit_char d \<in> set ''0123456789''"
  unfolding digit_char_def by (rule nth_mem) simp

lemma digit_char_zero: "d < 10 \<Longrightarrow> digit_char d = CHR ''0'' \<Longrightarrow> d = 0"
proof -
  assume d: "d < 10" and z: "digit_char d = CHR ''0''"
  have "distinct ''0123456789''" by simp
  moreover from d have "d < length ''0123456789''" by simp
  moreover have "0 < length ''0123456789''" by simp
  moreover from z have "''0123456789'' ! d = ''0123456789'' ! 0" by (simp add: digit_char_def)
  ultimately show "d = 0" by (simp only: nth_eq_iff_index_eq)
qed

lemma dec_string_last:
  "dec_string n \<noteq> [] \<and> last (dec_string n) = digit_char (n mod 10)"
  by (cases "n < 10") (simp_all add: dec_string_digit dec_string_step)

lemma group3_last: "s \<noteq> [] \<Longrightarrow> group3 s \<noteq> [] \<and> last (group3 s) = last s"
proof (cases "length s \<le> 3")
  case True
  assume "s \<noteq> []"
  with True show ?thesis by (simp add: group3_short)
next
  case False
  from False have d: "drop (length s - 3) s \<noteq> []" by simp
  from False have "group3 s = group3 (take (length s - 3) s) @ '','' @ drop (length s - 3) s"
    by (simp add: group3_step)
  moreover have "last (drop (length s - 3) s) = last s"
    using False by (simp add: last_drop)
  ultimately show ?thesis using d by simp
qed

lemma frac_digits_are_digits: "set (frac_digits d n) \<subseteq> set ''0123456789''"
proof (induction d arbitrary: n)
  case 0
  show ?case by simp
next
  case (Suc d)
  have "digit_char (n mod 10) \<in> set ''0123456789''"
    by (rule digit_char_is_digit) simp
  with Suc[of "n div 10"] show ?case by simp
qed

lemma frac_digits_all_zero:
  "\<forall>c \<in> set (frac_digits d n). c = CHR ''0'' \<Longrightarrow> n mod 10 ^ d = 0"
proof (induction d arbitrary: n)
  case 0
  show ?case by simp
next
  case (Suc d)
  from Suc.prems have "digit_char (n mod 10) = CHR ''0''" by simp
  then have m: "n mod 10 = 0" by (rule digit_char_zero[rotated]) simp
  from Suc.prems have "(n div 10) mod 10 ^ d = 0" by (intro Suc.IH) simp
  then have z: "(n div 10) mod 10 ^ d = 0" .
  from m have "n = 10 * (n div 10)" by presburger
  then have "n mod 10 ^ Suc d = (10 * (n div 10)) mod (10 * 10 ^ d)" by simp
  also have "\<dots> = 10 * ((n div 10) mod 10 ^ d)" by (simp only: mult_mod_right)
  finally show ?case using z by simp
qed

lemma strip_zeros_last:
  assumes "\<exists>c \<in> set s. c \<noteq> CHR ''0''"
  shows "strip_zeros s \<noteq> [] \<and> last (strip_zeros s) \<in> set s"
proof -
  let ?r = "dropWhile (\<lambda>c. c = CHR ''0'') (rev s)"
  from assms have ne: "?r \<noteq> []" by (auto simp: dropWhile_eq_Nil_conv)
  then have "hd ?r \<in> set ?r" by simp
  then have "hd ?r \<in> set s" by (auto dest: set_dropWhileD)
  with ne show ?thesis by (simp add: strip_zeros_def last_rev)
qed

lemma toLocaleString_last:
  "toLocaleString x \<noteq> [] \<and> last (toLocaleString x) \<in> set ''0123456789''"
proof -
  define n where "n = round_magnitude (x * 1000)"
  define sign where "sign = (if x < 0 then ''-'' else '''')"
  define ip where "ip = group3 (dec_string (n div 1000))"
  have ip: "ip \<noteq> [] \<and> last ip \<in> set ''0123456789''"
  proof -
    have "ip \<noteq> [] \<and> last ip = digit_char ((n div 1000) mod 10)"
      unfolding ip_def using group3_last[of "dec_string (n div 1000)"] dec_string_last[of "n div 1000"]
      by simp
    moreover have "digit_char ((n div 1000) mod 10) \<in> set ''0123456789''"
      by (rule digit_char_is_digit) simp
    ultimately show ?thesis by simp
  qed
  show ?thesis
  proof (cases "n mod 1000 = 0")
    case True
    then have "toLocaleString x = sign @ ip"
      by (simp add: toLocaleString_def Let_def n_def sign_def ip_def)
    with ip show ?thesis by simp
  next
    case False
    let ?f = "frac_digits 3 (n mod 1000)"
    have "\<exists>c \<in> set ?f. c \<noteq> CHR ''0''"
    proof (rule ccontr)
      assume "\<not> ?thesis"
      then have "(n mod 1000) mod 10 ^ 3 = 0" by (intro frac_digits_all_zero) simp
      with False show False by simp
    qed
    then have s: "strip_zeros ?f \<noteq> [] \<and> last (strip_zeros ?f) \<in> set ?f"
      by (rule strip_zeros_last)
    have "toLocaleString x = sign @ ip @ ''.'' @ strip_zeros ?f"
      using False by (simp add: toLocaleString_def Let_def n_def sign_def ip_def)
    with s frac_digits_are_digits[of 3 "n mod 1000"] show ?thesis by auto
  qed
qed


subsection \<open>The comparator sort\<close>

lemma length_js_insert [simp]: "length (js_insert cmp x ys) = Suc (length ys)"
  by (induction ys) auto

lemma length_js_sort [simp]: "length (js_sort cmp xs) = length xs"
  by (induction xs) (auto simp: js_sort_def)

lemma js_insert_key:
  "js_insert (\<lambda>a b. Some (f a - f b)) x ys = insort_key f x ys"
  for f :: "'a \<Rightarrow> 'k::linordered_idom"
  by (induction ys) (auto simp: cmp_le0_def)

lemma js_sort_key:
  "js_sort (\<lambda>a b. Some (f a - f b)) xs = sort_key f xs"
  for f :: "'a \<Rightarrow> 'k::linordered_idom"
  by (induction xs) (auto simp: js_sort_def js_insert_key)


lemma set_js_insert [simp]: "set (js_insert cmp x ys) = insert x (set ys)"
  by (induction ys) auto

lemma set_js_sort [simp]: "set (js_sort cmp xs) = set xs"
  by (induction xs) (auto simp: js_sort_def)

subsection \<open>Double precision\<close>

lemma pow2_power_int: "pow2 e = power_int 2 e"
  by (simp add: pow2_def power_int_def inverse_eq_divide power_one_over)

lemma pow2_pos: "0 < pow2 e"
  by (simp add: pow2_def)

lemma pow2_add: "pow2 (a + b) = pow2 a * pow2 b"
  by (simp add: pow2_power_int power_int_add)

lemma pow2_diff: "pow2 (a - b) = pow2 a / pow2 b"
  by (simp add: pow2_power_int power_int_diff)

lemma pow2_mono: "a \<le> b \<Longrightarrow> pow2 a \<le> pow2 b"
  by (simp add: pow2_power_int power_int_increasing)

lemma pow2_nat: "0 \<le> e \<Longrightarrow> pow2 e = 2 ^ nat e"
  by (simp add: pow2_def)

text \<open>\<open>ilog2 x\<close> is the binary exponent of a positive \<open>x\<close>, and the only one.\<close>

lemma ilog2_bounds:
  assumes "0 < x"
  shows "pow2 (ilog2 x) \<le> x \<and> x < pow2 (ilog2 x + 1)"
proof -
  obtain a b where q: "quotient_of x = (a, b)" by (cases "quotient_of x")
  then have b: "0 < b" and x: "x = of_int a / of_int b"
    by (auto dest: quotient_of_denom_pos quotient_of_div)
  with assms have a: "0 < a" by (simp add: zero_less_divide_iff)
  let ?la = "bitlen a" and ?lb = "bitlen b"
  have la: "1 \<le> ?la" using a bitlen_eq_zero_iff[of a] bitlen_nonneg[of a] by linarith
  have lb: "1 \<le> ?lb" using b bitlen_eq_zero_iff[of b] bitlen_nonneg[of b] by linarith
  from bitlen_bounds[OF a] have "(2::int) ^ nat (?la - 1) \<le> a" "a < 2 ^ nat ?la" by simp_all
  then have "rat_of_int (2 ^ nat (?la - 1)) \<le> of_int a" "rat_of_int a < of_int (2 ^ nat ?la)"
    by (simp_all only: of_int_le_iff of_int_less_iff)
  then have a1: "pow2 (?la - 1) \<le> of_int a" and a2: "of_int a < pow2 ?la"
    using la by (simp_all add: pow2_nat)
  from bitlen_bounds[OF b] have "(2::int) ^ nat (?lb - 1) \<le> b" "b < 2 ^ nat ?lb" by simp_all
  then have "rat_of_int (2 ^ nat (?lb - 1)) \<le> of_int b" "rat_of_int b < of_int (2 ^ nat ?lb)"
    by (simp_all only: of_int_le_iff of_int_less_iff)
  then have b1: "pow2 (?lb - 1) \<le> of_int b" and b2: "of_int b < pow2 ?lb"
    using lb by (simp_all add: pow2_nat)
  let ?d = "?la - ?lb"
  have bp: "0 < rat_of_int b" using b by simp
  have ap: "0 < rat_of_int a" using a by simp
  have up: "x < pow2 (?d + 1)"
  proof -
    have "x \<le> of_int a / pow2 (?lb - 1)"
      unfolding x using b1 ap pow2_pos[of "?lb - 1"] by (simp add: frac_le)
    also have "\<dots> < pow2 ?la / pow2 (?lb - 1)"
      using a2 pow2_pos[of "?lb - 1"] by (simp add: divide_strict_right_mono)
    also have "\<dots> = pow2 (?la - (?lb - 1))" by (simp only: pow2_diff)
    also have "?la - (?lb - 1) = ?d + 1" by simp
    finally show ?thesis .
  qed
  have lo: "pow2 (?d - 1) \<le> x"
  proof -
    have "pow2 (?d - 1) = pow2 ((?la - 1) - ?lb)" by (simp add: algebra_simps)
    also have "\<dots> = pow2 (?la - 1) / pow2 ?lb" by (simp only: pow2_diff)
    also have "\<dots> \<le> of_int a / pow2 ?lb"
      using a1 pow2_pos[of ?lb] by (simp add: divide_right_mono)
    also have "\<dots> \<le> of_int a / of_int b"
      using b2 ap bp by (simp add: frac_le)
    finally show ?thesis by (simp only: x)
  qed
  show ?thesis
  proof (cases "pow2 ?d \<le> x")
    case True
    then have "ilog2 x = ?d" by (simp add: ilog2_def q)
    with True up show ?thesis by simp
  next
    case False
    then have "ilog2 x = ?d - 1" by (simp add: ilog2_def q)
    with False lo show ?thesis by simp
  qed
qed

lemma ilog2_eq:
  assumes "pow2 e \<le> x" and "x < pow2 (e + 1)"
  shows "ilog2 x = e"
proof -
  from assms(1) pow2_pos[of e] have x: "0 < x" by simp
  from ilog2_bounds[OF x] have 1: "pow2 (ilog2 x) \<le> x" and 2: "x < pow2 (ilog2 x + 1)"
    by simp_all
  have "\<not> ilog2 x < e"
  proof
    assume "ilog2 x < e"
    then have "pow2 (ilog2 x + 1) \<le> pow2 e" by (intro pow2_mono) simp
    with 2 assms(1) show False by simp
  qed
  moreover have "\<not> e < ilog2 x"
  proof
    assume "e < ilog2 x"
    then have "pow2 (e + 1) \<le> pow2 (ilog2 x)" by (intro pow2_mono) simp
    with 1 assms(2) show False by simp
  qed
  ultimately show ?thesis by simp
qed

lemma round_even_le: "q \<le> of_int n \<Longrightarrow> round_even q \<le> n"
proof -
  assume q: "q \<le> of_int n"
  then have f: "\<lfloor>q\<rfloor> \<le> n" by (simp add: floor_le_iff)
  show ?thesis
  proof (cases "q = of_int \<lfloor>q\<rfloor>")
    case True
    then have "q - of_int \<lfloor>q\<rfloor> = 0" by simp
    then have "round_even q = \<lfloor>q\<rfloor>" by (simp add: round_even_def Let_def)
    with f show ?thesis by simp
  next
    case False
    then have "of_int \<lfloor>q\<rfloor> < q" using of_int_floor_le[of q] by (auto simp: less_le)
    with q have "rat_of_int \<lfloor>q\<rfloor> < of_int n" by simp
    then have "\<lfloor>q\<rfloor> < n" by (simp only: of_int_less_iff)
    then have "\<lfloor>q\<rfloor> + 1 \<le> n" by simp
    moreover have "round_even q \<le> \<lfloor>q\<rfloor> + 1" by (simp add: round_even_def Let_def)
    ultimately show ?thesis by simp
  qed
qed

lemma round_even_of_int: "round_even (of_int n) = n"
  by (simp add: round_even_def)

text \<open>The double nearest to a positive \<open>x\<close> of the binade \<open>e\<close>, below the largest binade.\<close>

lemma dbl_pos:
  assumes "pow2 e \<le> x" and "x < pow2 (e + 1)" and "- 1022 \<le> e" and "e \<le> 1022"
  shows "dbl x = Num (of_int (round_even (x / pow2 (e - 52))) * pow2 (e - 52))"
proof -
  from assms(1) pow2_pos[of e] have x: "0 < x" by simp
  have e: "ilog2 x = e" using assms(1,2) by (rule ilog2_eq)
  let ?u = "pow2 (e - 52)"
  let ?y = "of_int (round_even (x / ?u)) * ?u"
  have u: "0 < ?u" by (rule pow2_pos)
  have "x / ?u < pow2 (e + 1) / ?u" using assms(2) u by (simp add: divide_strict_right_mono)
  also have "\<dots> = pow2 ((e + 1) - (e - 52))" by (simp only: pow2_diff)
  also have "\<dots> = of_int (2 ^ 53)" by (simp add: pow2_def)
  finally have "round_even (x / ?u) \<le> 2 ^ 53" by (intro round_even_le) simp
  then have "rat_of_int (round_even (x / ?u)) \<le> of_int (2 ^ 53)" by (simp only: of_int_le_iff)
  then have "?y \<le> of_int (2 ^ 53) * ?u" using u by (simp only: mult_le_cancel_right_pos)
  also have "of_int (2 ^ 53) = pow2 53" by (simp add: pow2_def)
  also have "pow2 53 * ?u = pow2 (53 + (e - 52))" by (simp only: pow2_add)
  also have "\<dots> \<le> pow2 1023" using assms(4) by (intro pow2_mono) simp
  also have "\<dots> < pow2 1024" by (simp add: pow2_def)
  finally have y: "\<not> pow2 1024 \<le> ?y" by simp
  have m: "max e (- 1022) = e" using assms(3) by simp
  from x have x0: "x \<noteq> 0" "\<bar>x\<bar> = x" by simp_all
  show ?thesis
    unfolding dbl_def Let_def using y x
    by (simp add: x0 e m)
qed

lemma dbl_uminus:
  "dbl (- x) = (case dbl x of Num a \<Rightarrow> Num (- a) | PosInf \<Rightarrow> NegInf | NegInf \<Rightarrow> PosInf | NaN \<Rightarrow> NaN)"
  by (simp add: dbl_def Let_def)

text \<open>An integer below \<open>2 ^ 53\<close> in magnitude is a double.\<close>

lemma dbl_of_int_pos:
  assumes "0 < n" and "n < 2 ^ 53"
  shows "dbl (of_int n) = Num (of_int n)"
proof -
  let ?x = "rat_of_int n"
  let ?e = "ilog2 ?x"
  from assms(1) have x: "0 < ?x" by simp
  from ilog2_bounds[OF x] have lo: "pow2 ?e \<le> ?x" and up: "?x < pow2 (?e + 1)" by simp_all
  have e0: "0 \<le> ?e"
  proof (rule ccontr)
    assume "\<not> 0 \<le> ?e"
    then have "pow2 (?e + 1) \<le> pow2 0" by (intro pow2_mono) simp
    also have "\<dots> = 1" by (simp add: pow2_def)
    finally have "?x < 1" using up by simp
    with assms(1) show False by simp
  qed
  have e52: "?e \<le> 52"
  proof (rule ccontr)
    assume "\<not> ?e \<le> 52"
    then have "pow2 53 \<le> pow2 ?e" by (intro pow2_mono) simp
    with lo have "pow2 53 \<le> ?x" by simp
    moreover have "pow2 53 = of_int (2 ^ 53)" by (simp add: pow2_def)
    ultimately have "rat_of_int (2 ^ 53) \<le> of_int n" by simp
    then have "2 ^ 53 \<le> n" by (simp only: of_int_le_iff)
    with assms(2) show False by simp
  qed
  let ?k = "nat (52 - ?e)"
  have u: "pow2 (?e - 52) = 1 / 2 ^ ?k"
    using e52 by (cases "?e = 52") (simp_all add: pow2_def)
  have q: "?x / pow2 (?e - 52) = of_int (n * 2 ^ ?k)" by (simp add: u)
  have "dbl ?x = Num (of_int (round_even (?x / pow2 (?e - 52))) * pow2 (?e - 52))"
    using lo up e0 e52 by (intro dbl_pos) simp_all
  also have "\<dots> = Num ?x" by (simp only: q round_even_of_int) (simp add: u)
  finally show ?thesis .
qed

lemma dbl_of_int:
  assumes "\<bar>n\<bar> < 2 ^ 53"
  shows "dbl (of_int n) = Num (of_int n)"
proof -
  consider "n = 0" | "0 < n" | "n < 0" by linarith
  then show ?thesis
  proof cases
    case 1
    then show ?thesis by (simp add: dbl_def)
  next
    case 2
    with assms show ?thesis by (intro dbl_of_int_pos) simp_all
  next
    case 3
    with assms have "dbl (of_int (- n)) = Num (of_int (- n))" by (intro dbl_of_int_pos) simp_all
    then have "dbl (- rat_of_int n) = Num (- of_int n)" by simp
    then show ?thesis by (cases "dbl (rat_of_int n)") (simp_all add: dbl_uminus)
  qed
qed

text \<open>The doubles on the way from the revenues 80 and 103 to the growth 28.7.\<close>

lemma dbl_values:
  "dbl (23 / 80) = Num (2589569785738035 / 9007199254740992)"
  "dbl (2589569785738035 / 9007199254740992 * 100) = Num (8092405580431359 / 281474976710656)"
  "dbl (8092405580431359 / 281474976710656 * 10) = Num (5057753487769599 / 17592186044416)"
  "dbl (287 / 10) = Num (8078331831595827 / 281474976710656)"
proof -
  show "dbl (23 / 80) = Num (2589569785738035 / 9007199254740992)"
    using dbl_pos[of "- 2" "23 / 80"]
    by (simp add: pow2_def round_even_def floor_rat_numeral_div)
  show "dbl (2589569785738035 / 9007199254740992 * 100) = Num (8092405580431359 / 281474976710656)"
    using dbl_pos[of 4 "2589569785738035 / 9007199254740992 * 100"]
    by (simp add: pow2_def round_even_def floor_rat_numeral_div)
  show "dbl (8092405580431359 / 281474976710656 * 10) = Num (5057753487769599 / 17592186044416)"
    using dbl_pos[of 8 "8092405580431359 / 281474976710656 * 10"]
    by (simp add: pow2_def round_even_def floor_rat_numeral_div)
  show "dbl (287 / 10) = Num (8078331831595827 / 281474976710656)"
    using dbl_pos[of 4 "287 / 10"]
    by (simp add: pow2_def round_even_def floor_rat_numeral_div)
qed

lemma dbl_integers:
  "dbl 23 = Num 23" "dbl (- 10) = Num (- 10)" "dbl (- 103) = Num (- 103)"
  "dbl (- 1) = Num (- 1)" "dbl (- 100) = Num (- 100)" "dbl (- 1000) = Num (- 1000)"
  using dbl_of_int[of 23] dbl_of_int[of "- 10"] dbl_of_int[of "- 103"] dbl_of_int[of "- 1"]
    dbl_of_int[of "- 100"] dbl_of_int[of "- 1000"]
  by simp_all

text \<open>A numeral parses to a positive double exactly if it exceeds half the least double.\<close>

lemma round_even_nonneg: "0 \<le> q \<Longrightarrow> 0 \<le> round_even q"
  by (simp add: round_even_def Let_def)

lemma round_even_pos_iff: "0 \<le> q \<Longrightarrow> (0 < round_even q) = (1 / 2 < q)"
proof -
  assume q: "0 \<le> q"
  show ?thesis
  proof (cases "q < 1")
    case True
    with q have f: "\<lfloor>q\<rfloor> = 0" by (simp add: floor_eq_iff)
    then show ?thesis by (simp add: round_even_def Let_def)
  next
    case False
    then have "1 \<le> \<lfloor>q\<rfloor>" by (simp add: le_floor_iff)
    moreover have "\<lfloor>q\<rfloor> \<le> round_even q" by (simp add: round_even_def Let_def)
    ultimately have "0 < round_even q" by (rule less_le_trans[OF less_le_trans[OF zero_less_one]])
    moreover from False have "1 / 2 < q" by linarith
    ultimately show ?thesis by (simp only: simp_thms)
  qed
qed

lemma dbl_positive: "js_positive (dbl x) = (pow2 (- 1075) < x)"
proof (cases "0 < x")
  case False
  then have "\<not> pow2 (- 1075) < x" using pow2_pos[of "- 1075"] by simp
  moreover have "\<not> js_positive (dbl x)"
  proof (cases "x = 0")
    case True
    then show ?thesis by (simp add: dbl_def js_positive_def)
  next
    case nz: False
    let ?u = "pow2 (max (ilog2 \<bar>x\<bar>) (- 1022) - 52)"
    have "0 \<le> \<bar>x\<bar> / ?u" using pow2_pos[of "max (ilog2 \<bar>x\<bar>) (- 1022) - 52"] by simp
    then have "0 \<le> round_even (\<bar>x\<bar> / ?u)" by (rule round_even_nonneg)
    then have "0 \<le> rat_of_int (round_even (\<bar>x\<bar> / ?u)) * ?u"
      using pow2_pos[of "max (ilog2 \<bar>x\<bar>) (- 1022) - 52"] by simp
    with False nz show ?thesis by (simp add: dbl_def js_positive_def Let_def)
  qed
  ultimately show ?thesis by simp
next
  case True
  let ?e = "max (ilog2 x) (- 1022)"
  let ?u = "pow2 (?e - 52)"
  let ?n = "round_even (x / ?u)"
  have u: "0 < ?u" by (rule pow2_pos)
  have q: "0 \<le> x / ?u" using True u by simp
  have p: "js_positive (dbl x) = (0 < ?n)"
  proof (cases "pow2 1024 \<le> of_int ?n * ?u")
    case big: True
    have "0 < rat_of_int ?n * ?u" using big pow2_pos[of 1024] by simp
    then have "0 < rat_of_int ?n" using u by (simp add: zero_less_mult_iff)
    then have "0 < ?n" by simp
    with big True show ?thesis by (simp add: dbl_def js_positive_def Let_def)
  next
    case small: False
    have "(0 < rat_of_int ?n * ?u) = (0 < ?n)" using u by (simp add: zero_less_mult_iff)
    with small True show ?thesis by (simp add: dbl_def js_positive_def Let_def)
  qed
  have "(1 / 2 < x / ?u) = (pow2 (- 1075) < x)"
  proof (cases "- 1022 \<le> ilog2 x")
    case normal: True
    then have e: "?e = ilog2 x" by simp
    from ilog2_bounds[OF True] have lo: "pow2 (ilog2 x) \<le> x" by simp
    have "pow2 52 = pow2 (ilog2 x - (ilog2 x - 52))" by simp
    also have "\<dots> = pow2 (ilog2 x) / pow2 (ilog2 x - 52)" by (simp only: pow2_diff)
    also have "\<dots> \<le> x / pow2 (ilog2 x - 52)"
      using lo pow2_pos[of "ilog2 x - 52"] by (simp add: divide_right_mono)
    finally have a: "pow2 52 \<le> x / ?u" by (simp only: e)
    have b: "(1 :: rat) / 2 < pow2 52" by (simp add: pow2_def)
    from b a have 1: "1 / 2 < x / ?u" by (rule less_le_trans)
    have "pow2 (- 1075) < pow2 (- 1022)" by (simp add: pow2_def)
    also have "\<dots> \<le> pow2 (ilog2 x)" using normal by (rule pow2_mono)
    also note lo
    finally have 2: "pow2 (- 1075) < x" .
    from 1 2 show ?thesis by simp
  next
    case sub: False
    then have e: "?e = - 1022" by simp
    have u': "?u = pow2 (- 1074)" by (simp only: e) simp
    have "(1 / 2 < x / pow2 (- 1074)) = (pow2 (- 1074) / 2 < x)"
      using pow2_pos[of "- 1074"] by (simp add: pos_less_divide_eq)
    also have "pow2 (- 1074) / 2 = pow2 (- 1075)" by (simp add: pow2_def)
    finally show ?thesis by (simp only: u')
  qed
  with p round_even_pos_iff[OF q] show ?thesis by simp
qed

subsection \<open>Negative amounts are never abbreviated\<close>

text \<open>
  Claim C10. For every finite negative value \<open>v\<close>, \<open>formatLargeNumber v\<close> is the dollar
  sign followed by the localized rendering of \<open>v\<close>; its last character is a decimal
  digit, so the result carries none of the suffixes T, B and M. In particular
  \<open>-2.5e9\<close> is rendered as \<open>$-2,500,000,000\<close>.
\<close>

theorem C10_formatLargeNumber_negative:
  assumes "v < 0"
  shows "formatLargeNumber (Some v) = ''$'' @ toLocaleString v
       \<and> last (formatLargeNumber (Some v)) \<in> set ''0123456789''
       \<and> last (formatLargeNumber (Some v)) \<notin> {CHR ''T'', CHR ''B'', CHR ''M''}"
proof -
  have "(0::rat) < 10 ^ 12" "(0::rat) < 10 ^ 9" "(0::rat) < 10 ^ 6" by simp_all
  with assms have a: "\<not> v \<ge> 10 ^ 12" "\<not> v \<ge> 10 ^ 9" "\<not> v \<ge> 10 ^ 6"
    by linarith+
  then have eq: "formatLargeNumber (Some v) = ''$'' @ toLocaleString v"
    by (simp add: formatLargeNumber_def)
  moreover have "last (''$'' @ toLocaleString v) \<in> set ''0123456789''"
    using toLocaleString_last[of v] by simp
  ultimately show ?thesis by auto
qed

theorem C10_formatLargeNumber_negative_witness:
  "(- 2500000000 :: rat) < 0
   \<and> formatLargeNumber (Some (- 2500000000)) = ''$-2,500,000,000''
   \<and> last (formatLargeNumber (Some (- 2500000000))) \<notin> {CHR ''T'', CHR ''B'', CHR ''M''}"
proof -
  have h: "(- 2500000000 :: rat) < 0" by simp
  have e: "toLocaleString (- 2500000000) = ''-2,500,000,000''"
    by (simp add: render_simps)
  from C10_formatLargeNumber_negative[OF h] e h show ?thesis by simp
qed

subsection \<open>The loops of \<open>build\<close>\<close>

lemmas slide_defs =
  addCoverSlide_def addTableOfContents_def addInvestmentSummary_def addCompanyOverview_def
  addIndustryOverview_def addKeyMetrics_def addFinancialSummary_def addPeersComps_def
  addGrowthDrivers_def addInvestmentThesis_def addValuation_def addRisksAndMitigants_def
  addAppendix_def

lemma run_slide_steps_ok:
  "\<forall>s \<in> set steps. slide_fault (fst s) = None \<Longrightarrow>
   run_slide_steps slide_fault cd fd steps deck = Inr (deck @ map (\<lambda>s. snd s cd fd) steps)"
  by (induction steps arbitrary: deck) auto

lemma run_slide_steps_fail:
  "\<forall>s \<in> set pre. slide_fault (fst s) = None \<Longrightarrow> slide_fault name = Some e \<Longrightarrow>
   run_slide_steps slide_fault cd fd (pre @ (name, fn) # post) deck =
     Inl (''Failed on slide \"'' @ name @ ''\": '' @ thrown_message e)"
  by (induction pre arbitrary: deck) auto

text \<open>The charts for which \<open>find\<close> succeeds, in the order of the types tried.\<close>

lemma add_chart_slides_ok:
  "\<forall>t \<in> set ts. chart_fault t = None \<or> find (\<lambda>c. chart_type c = t) chs = None \<Longrightarrow>
   add_chart_slides chart_fault chs ts deck =
     Inr (deck @ map addChartSlide (List.map_filter (\<lambda>t. find (\<lambda>c. chart_type c = t) chs) ts))"
  by (induction ts arbitrary: deck) (auto split: option.splits)

lemma add_chart_slides_fail:
  "\<forall>t \<in> set pre. chart_fault t = None \<or> find (\<lambda>c. chart_type c = t) chs = None \<Longrightarrow>
   find (\<lambda>c. chart_type c = t) chs = Some chart \<Longrightarrow> chart_fault t = Some e \<Longrightarrow>
   add_chart_slides chart_fault chs (pre @ t # post) deck =
     Inl (''Failed on chart slide: '' @ thrown_message e)"
  by (induction pre arbitrary: deck) (auto split: option.splits)

lemma kind_fixed_slides:
  "map (\<lambda>s. kind (snd s cd fd)) slide_steps =
     [Cover, TOC, InvestmentSummary, CompanyOverview, IndustryOverview, KeyMetrics,
      FinancialSummary, PeersComps, GrowthDrivers, InvestmentThesis, Valuation,
      RisksAndMitigants, Appendix]"
  by (simp add: slide_steps_def slide_defs)

lemma find_chart_type:
  "find (\<lambda>c. chart_type c = t) chs = Some chart \<Longrightarrow> chart_type chart = t"
  by (auto simp: find_Some_iff)

lemma kind_chart_slides:
  "map kind (map addChartSlide (List.map_filter (\<lambda>t. find (\<lambda>c. chart_type c = t) chs) ts)) =
   map ChartSlide (filter (\<lambda>t. t \<in> chart_type ` set chs) ts)"
proof (induction ts)
  case Nil
  show ?case by simp
next
  case (Cons t ts)
  show ?case
  proof (cases "find (\<lambda>c. chart_type c = t) chs")
    case None
    then have "t \<notin> chart_type ` set chs" by (auto simp: find_None_iff)
    with None Cons show ?thesis by simp
  next
    case (Some chart)
    then have "chart_type chart = t" "chart \<in> set chs"
      by (auto simp: find_Some_iff in_set_conv_nth)
    then have "t \<in> chart_type ` set chs" by auto
    with Some Cons \<open>chart_type chart = t\<close> show ?thesis
      by (simp add: addChartSlide_def)
  qed
qed

lemma build_deck_no_fault:
  assumes "\<forall>s \<in> set slide_steps. slide_fault (fst s) = None"
    and "\<forall>t \<in> set chart_order. chart_fault t = None \<or> find (\<lambda>c. chart_type c = t) chs = None"
  shows "build_deck slide_fault chart_fault cd fd chs =
     Inr (map (\<lambda>s. snd s cd fd) slide_steps
          @ map addChartSlide (List.map_filter (\<lambda>t. find (\<lambda>c. chart_type c = t) chs) chart_order))"
  using assms by (simp add: build_deck_def run_slide_steps_ok add_chart_slides_ok)

lemma run_slide_steps_Inr:
  "run_slide_steps slide_fault cd fd steps deck = Inr d \<Longrightarrow>
   d = deck @ map (\<lambda>s. snd s cd fd) steps"
proof (induction steps arbitrary: deck)
  case Nil
  then show ?case by simp
next
  case (Cons s steps)
  obtain name fn where s: "s = (name, fn)" by (cases s)
  with Cons.prems have "run_slide_steps slide_fault cd fd steps (deck @ [fn cd fd]) = Inr d"
    by (auto split: option.splits)
  from Cons.IH[OF this] s show ?case by simp
qed

lemma add_chart_slides_Inr:
  "add_chart_slides chart_fault chs ts deck = Inr d \<Longrightarrow>
   d = deck @ map addChartSlide (List.map_filter (\<lambda>t. find (\<lambda>c. chart_type c = t) chs) ts)"
proof (induction ts arbitrary: deck)
  case Nil
  then show ?case by simp
next
  case (Cons t ts)
  show ?case
  proof (cases "find (\<lambda>c. chart_type c = t) chs")
    case None
    with Cons.prems have "add_chart_slides chart_fault chs ts deck = Inr d" by simp
    from Cons.IH[OF this] None show ?thesis by simp
  next
    case (Some chart)
    with Cons.prems
    have "add_chart_slides chart_fault chs ts (deck @ [addChartSlide chart]) = Inr d"
      by (auto split: option.splits)
    from Cons.IH[OF this] Some show ?thesis by simp
  qed
qed

lemma build_deck_kinds:
  assumes "build_deck slide_fault chart_fault cd fd chs = Inr deck"
  shows "map kind deck =
     [Cover, TOC, InvestmentSummary, CompanyOverview, IndustryOverview, KeyMetrics,
      FinancialSummary, PeersComps, GrowthDrivers, InvestmentThesis, Valuation,
      RisksAndMitigants, Appendix]
     @ map ChartSlide (filter (\<lambda>t. t \<in> chart_type ` set chs) chart_order)"
proof -
  from assms obtain d where d: "run_slide_steps slide_fault cd fd slide_steps [] = Inr d"
    and a: "add_chart_slides chart_fault chs chart_order d = Inr deck"
    by (auto simp: build_deck_def split: sum.splits)
  from d have "d = map (\<lambda>s. snd s cd fd) slide_steps"
    using run_slide_steps_Inr by fastforce
  moreover from a have "deck = d @ map addChartSlide
      (List.map_filter (\<lambda>t. find (\<lambda>c. chart_type c = t) chs) chart_order)"
    by (rule add_chart_slides_Inr)
  ultimately show ?thesis
    using kind_fixed_slides[of cd fd] kind_chart_slides[of chs chart_order]
    by (simp add: comp_def)
qed


lemma build_slide_failure:
  assumes "slide_steps = pre @ (name, fn) # post"
    and "\<forall>s \<in> set pre. slide_fault (fst s) = None"
    and "slide_fault name = Some e"
  shows "build slide_fault chart_fault write cd fd chs =
           Inl (''Failed on slide \"'' @ name @ ''\": '' @ thrown_message e)"
proof -
  have "run_slide_steps slide_fault cd fd (pre @ (name, fn) # post) [] =
          Inl (''Failed on slide \"'' @ name @ ''\": '' @ thrown_message e)"
    using assms(2,3) by (rule run_slide_steps_fail)
  then have "run_slide_steps slide_fault cd fd slide_steps [] =
          Inl (''Failed on slide \"'' @ name @ ''\": '' @ thrown_message e)"
    by (simp only: assms(1))
  then show ?thesis by (simp add: build_def build_deck_def)
qed

lemma build_chart_failure:
  assumes "\<forall>s \<in> set slide_steps. slide_fault (fst s) = None"
    and "chart_order = pre @ t # post"
    and "\<forall>u \<in> set pre. chart_fault u = None \<or> find (\<lambda>c. chart_type c = u) chs = None"
    and "find (\<lambda>c. chart_type c = t) chs = Some chart"
    and "chart_fault t = Some e"
  shows "build slide_fault chart_fault write cd fd chs =
           Inl (''Failed on chart slide: '' @ thrown_message e)"
proof -
  let ?d = "map (\<lambda>s. snd s cd fd) slide_steps"
  have r: "run_slide_steps slide_fault cd fd slide_steps [] = Inr ?d"
    using assms(1) by (simp add: run_slide_steps_ok)
  have "add_chart_slides chart_fault chs (pre @ t # post) ?d =
          Inl (''Failed on chart slide: '' @ thrown_message e)"
    using assms(3,4,5) by (rule add_chart_slides_fail)
  then have "add_chart_slides chart_fault chs chart_order ?d =
          Inl (''Failed on chart slide: '' @ thrown_message e)"
    by (simp only: assms(2))
  with r show ?thesis by (simp add: build_def build_deck_def)
qed

lemma build_write:
  assumes "build_deck slide_fault chart_fault cd fd chs = Inr deck"
  shows "build slide_fault chart_fault write cd fd chs =
           (case write deck of
              Inl e \<Rightarrow> Inl (''Failed generating PowerPoint file: '' @ thrown_message e)
            | Inr blob \<Rightarrow> Inr blob)"
  using assms by (simp add: build_def)

lemma build_Inr:
  assumes "build slide_fault chart_fault write cd fd chs = Inr blob"
  shows "\<exists>deck. build_deck slide_fault chart_fault cd fd chs = Inr deck \<and> write deck = Inr blob"
  using assms by (auto simp: build_def split: sum.splits)

subsection \<open>Position of the chart slides\<close>

text \<open>
  Claim C1. The claim places the chart slides between the financial summary and the
  peer comparison. In the code \<open>build\<close> first runs all thirteen fixed steps and only then
  adds the chart slides: with three chart images and no failing step the deck has
  sixteen slides, and the three chart slides come after the appendix.
\<close>

theorem C1_chart_slides_follow_appendix:
  "\<exists>deck. build_deck no_fault no_fault cd fd three_charts = Inr deck
     \<and> length deck = 16
     \<and> map kind deck =
         [Cover, TOC, InvestmentSummary, CompanyOverview, IndustryOverview, KeyMetrics,
          FinancialSummary, PeersComps, GrowthDrivers, InvestmentThesis, Valuation,
          RisksAndMitigants, Appendix,
          ChartSlide revenueGrowth, ChartSlide pricePerformance, ChartSlide marketShare]"
proof -
  have "build_deck no_fault no_fault cd fd three_charts =
     Inr (map (\<lambda>s. snd s cd fd) slide_steps
          @ map addChartSlide
              (List.map_filter (\<lambda>t. find (\<lambda>c. chart_type c = t) three_charts) chart_order))"
    by (rule build_deck_no_fault) (simp_all add: no_fault_def)
  then obtain deck where d: "build_deck no_fault no_fault cd fd three_charts = Inr deck"
    by blast
  have k: "map kind deck =
     [Cover, TOC, InvestmentSummary, CompanyOverview, IndustryOverview, KeyMetrics,
      FinancialSummary, PeersComps, GrowthDrivers, InvestmentThesis, Valuation,
      RisksAndMitigants, Appendix]
     @ map ChartSlide (filter (\<lambda>t. t \<in> chart_type ` set three_charts) chart_order)"
    using d by (rule build_deck_kinds)
  have "filter (\<lambda>t. t \<in> chart_type ` set three_charts) chart_order =
      [revenueGrowth, pricePerformance, marketShare]"
    by (simp add: three_charts_def chart_image_def chart_order_def)
  with k have k': "map kind deck =
     [Cover, TOC, InvestmentSummary, CompanyOverview, IndustryOverview, KeyMetrics,
      FinancialSummary, PeersComps, GrowthDrivers, InvestmentThesis, Valuation,
      RisksAndMitigants, Appendix,
      ChartSlide revenueGrowth, ChartSlide pricePerformance, ChartSlide marketShare]"
    by simp
  then have "length (map kind deck) = 16" by simp
  then have l: "length deck = 16" by simp
  show ?thesis
  proof (intro exI conjI)
    show "build_deck no_fault no_fault cd fd three_charts = Inr deck" by (rule d)
    show "length deck = 16" by (rule l)
    show "map kind deck =
     [Cover, TOC, InvestmentSummary, CompanyOverview, IndustryOverview, KeyMetrics,
      FinancialSummary, PeersComps, GrowthDrivers, InvestmentThesis, Valuation,
      RisksAndMitigants, Appendix,
      ChartSlide revenueGrowth, ChartSlide pricePerformance, ChartSlide marketShare]"
      by (rule k')
  qed
qed

subsection \<open>The charts that are exported\<close>

lemma render_block_types:
  "render_block render cond t ttl = Inr r \<Longrightarrow> map chart_type r = (if cond then [t] else [])"
  by (auto simp: render_block_def split: if_splits sum.splits)

text \<open>What a block pushes is the image that the rasteriser returned for its chart.\<close>

lemma render_block_image:
  "render_block render cond t ttl = Inr r \<Longrightarrow> c \<in> set r \<Longrightarrow>
   chart_type c = t \<and> render t = Inr (dataURL c) \<and> title c = ttl"
  by (auto simp: render_block_def split: if_splits sum.splits)

lemma generateAllCharts_blocks:
  assumes "generateAllCharts render pd rd md en = Inr chs"
  obtains r1 r2 r3 where
    "render_block render (en pricePerformance \<and> has_chart_data pd rd md pricePerformance)
       pricePerformance ''Stock Price Performance'' = Inr r1"
    "render_block render (en revenueGrowth \<and> has_chart_data pd rd md revenueGrowth)
       revenueGrowth ''Revenue & Growth'' = Inr r2"
    "render_block render (en marketShare \<and> has_chart_data pd rd md marketShare)
       marketShare ''Market Share'' = Inr r3"
    "chs = r1 @ r2 @ r3"
  using assms by (auto simp: generateAllCharts_def split: sum.splits)

lemma generateAllCharts_types:
  assumes "generateAllCharts render pd rd md en = Inr chs"
  shows "map chart_type chs =
      filter (\<lambda>t. en t \<and> has_chart_data pd rd md t) [pricePerformance, revenueGrowth, marketShare]"
proof -
  from assms obtain r1 r2 r3 where
    r1: "render_block render (en pricePerformance \<and> has_chart_data pd rd md pricePerformance)
           pricePerformance ''Stock Price Performance'' = Inr r1" and
    r2: "render_block render (en revenueGrowth \<and> has_chart_data pd rd md revenueGrowth)
           revenueGrowth ''Revenue & Growth'' = Inr r2" and
    r3: "render_block render (en marketShare \<and> has_chart_data pd rd md marketShare)
           marketShare ''Market Share'' = Inr r3" and
    chs: "chs = r1 @ r2 @ r3"
    by (rule generateAllCharts_blocks)
  from render_block_types[OF r1] render_block_types[OF r2] render_block_types[OF r3] chs
  show ?thesis by simp
qed

lemma generateAllCharts_image:
  assumes "generateAllCharts render pd rd md en = Inr chs" and "c \<in> set chs"
  shows "render (chart_type c) = Inr (dataURL c)
       \<and> title c = (case chart_type c of
                      pricePerformance \<Rightarrow> ''Stock Price Performance''
                    | revenueGrowth \<Rightarrow> ''Revenue & Growth''
                    | marketShare \<Rightarrow> ''Market Share'')"
proof -
  from assms(1) obtain r1 r2 r3 where
    r1: "render_block render (en pricePerformance \<and> has_chart_data pd rd md pricePerformance)
           pricePerformance ''Stock Price Performance'' = Inr r1" and
    r2: "render_block render (en revenueGrowth \<and> has_chart_data pd rd md revenueGrowth)
           revenueGrowth ''Revenue & Growth'' = Inr r2" and
    r3: "render_block render (en marketShare \<and> has_chart_data pd rd md marketShare)
           marketShare ''Market Share'' = Inr r3" and
    chs: "chs = r1 @ r2 @ r3"
    by (rule generateAllCharts_blocks)
  from assms(2) chs consider "c \<in> set r1" | "c \<in> set r2" | "c \<in> set r3" by auto
  then show ?thesis
  proof cases
    case 1
    from render_block_image[OF r1 1] show ?thesis by simp
  next
    case 2
    from render_block_image[OF r2 2] show ?thesis by simp
  next
    case 3
    from render_block_image[OF r3 3] show ?thesis by simp
  qed
qed

lemma chart_type_cases: "t = pricePerformance \<or> t = revenueGrowth \<or> t = marketShare"
  by (cases t) auto

lemma generateAllCharts_set:
  assumes "generateAllCharts render pd rd md en = Inr chs"
  shows "chart_type ` set chs = {t. en t \<and> has_chart_data pd rd md t}"
proof -
  have U: "set [pricePerformance, revenueGrowth, marketShare] = UNIV"
  proof
    show "UNIV \<subseteq> set [pricePerformance, revenueGrowth, marketShare]"
    proof
      fix t :: ChartType
      show "t \<in> set [pricePerformance, revenueGrowth, marketShare]" by (cases t) simp_all
    qed
  qed simp
  have "chart_type ` set chs = set (map chart_type chs)" by simp
  also have "\<dots> = {t \<in> set [pricePerformance, revenueGrowth, marketShare].
                      en t \<and> has_chart_data pd rd md t}"
    by (simp only: generateAllCharts_types[OF assms] set_filter)
  also have "\<dots> = {t. en t \<and> has_chart_data pd rd md t}"
    by (simp only: U) simp
  finally show ?thesis .
qed

lemma length_share_companies:
  "length (share_companies r n peers revs) =
     1 + length (filter (\<lambda>p. case revs (PeerData.symbol p) of None \<Rightarrow> False | Some v \<Rightarrow> v > 0) peers)"
  unfolding share_companies_def
  by (induction peers) (auto split: option.splits)

lemma length_share_values:
  "length (share_values (calculateMarketShare r n peers revs)) =
     min 6 (1 + length (filter (\<lambda>p. case revs (PeerData.symbol p) of None \<Rightarrow> False | Some v \<Rightarrow> v > 0) peers))"
  by (simp add: calculateMarketShare_def Let_def length_share_companies min.commute)

subsection \<open>The builder and the chart flags of the form\<close>

lemma run_slide_steps_cong:
  "\<forall>s \<in> set steps. snd s cd fd' = snd s cd fd \<Longrightarrow>
   run_slide_steps slide_fault cd fd' steps deck = run_slide_steps slide_fault cd fd steps deck"
  by (induction steps arbitrary: deck) (auto split: option.splits)

text \<open>No slide function reads the flags \<open>charts\<close> of the form.\<close>

lemma slide_steps_ignore_charts:
  "\<forall>s \<in> set slide_steps. snd s cd (fd\<lparr>charts := flags\<rparr>) = snd s cd fd"
  unfolding slide_steps_def
  by (simp add: slide_defs thesisText_def priceBoxes_def)

lemma build_deck_ignores_charts:
  "build_deck slide_fault chart_fault cd (fd\<lparr>charts := flags\<rparr>) chs =
   build_deck slide_fault chart_fault cd fd chs"
  unfolding build_deck_def
  by (simp only: run_slide_steps_cong[OF slide_steps_ignore_charts])

lemma build_deck_Inr:
  assumes "build_deck slide_fault chart_fault cd fd chs = Inr deck"
  shows "deck = map (\<lambda>s. snd s cd fd) slide_steps
           @ map addChartSlide (List.map_filter (\<lambda>t. find (\<lambda>c. chart_type c = t) chs) chart_order)"
proof -
  from assms obtain d where d: "run_slide_steps slide_fault cd fd slide_steps [] = Inr d"
    and a: "add_chart_slides chart_fault chs chart_order d = Inr deck"
    by (auto simp: build_deck_def split: sum.splits)
  from d have "d = map (\<lambda>s. snd s cd fd) slide_steps"
    using run_slide_steps_Inr by fastforce
  moreover from a have "deck = d @ map addChartSlide
      (List.map_filter (\<lambda>t. find (\<lambda>c. chart_type c = t) chs) chart_order)"
    by (rule add_chart_slides_Inr)
  ultimately show ?thesis by simp
qed

lemma length_slide_steps: "length slide_steps = 13"
  by (simp add: slide_steps_def)

subsection \<open>Chart slides of the deck\<close>

text \<open>
  Claim C5, as stated, fails: \<open>build\<close> does not read the chart flags of the form. Given
  three chart images and a form with every chart switched off, it appends the three
  chart slides.
\<close>

theorem C5_counterexample:
  "(case build_deck no_fault no_fault example_company no_charts_form three_charts of
      Inl m \<Rightarrow> []
    | Inr deck \<Rightarrow> map kind (drop 13 deck)) =
     [ChartSlide revenueGrowth, ChartSlide pricePerformance, ChartSlide marketShare]
   \<and> charts no_charts_form revenueGrowth = False
   \<and> charts no_charts_form pricePerformance = False
   \<and> charts no_charts_form marketShare = False"
proof -
  have "build_deck no_fault no_fault example_company no_charts_form three_charts =
     Inr (map (\<lambda>s. snd s example_company no_charts_form) slide_steps
          @ map addChartSlide
              (List.map_filter (\<lambda>t. find (\<lambda>c. chart_type c = t) three_charts) chart_order))"
    by (rule build_deck_no_fault) (simp_all add: no_fault_def)
  then have "build_deck no_fault no_fault example_company no_charts_form three_charts =
     Inr (map (\<lambda>s. snd s example_company no_charts_form) slide_steps
          @ [addChartSlide (chart_image revenueGrowth), addChartSlide (chart_image pricePerformance),
             addChartSlide (chart_image marketShare)])"
    by (simp add: chart_order_def three_charts_def chart_image_def List.map_filter_simps)
  then have "(case build_deck no_fault no_fault example_company no_charts_form three_charts of
      Inl m \<Rightarrow> []
    | Inr deck \<Rightarrow> map kind (drop 13 deck)) =
     [ChartSlide revenueGrowth, ChartSlide pricePerformance, ChartSlide marketShare]"
    by (simp add: length_slide_steps addChartSlide_def chart_image_def)
  then show ?thesis by (simp add: no_charts_form_def no_charts_def)
qed

text \<open>
  Claim C5, amended. Whatever the chart flags of the form, the slides that \<open>build\<close>
  appends after the thirteen fixed ones are the chart slides of the types for which
  an image is in the list passed to it: in the order revenue, price, market share
  whatever the order of the list, each slide carrying the title and the image of the
  first entry of its type. The flags are applied where the images are produced:
  \<open>generateAllCharts\<close> returns, in the order price, revenue, market share, one image for
  each chart that is enabled and whose data is present, the image being the data URL
  that the rasteriser returned for that chart, under the fixed title of the chart.
  So when \<open>build\<close> is given the list returned by \<open>generateAllCharts\<close>, the chart slides are
  those of the enabled charts that have data. There is a market-share image only if
  the market-share data has at least two entities, and the data computed by
  \<open>calculateMarketShare\<close> has one entity for the subject and one for each peer with a
  known positive revenue, up to six.
\<close>

theorem C5_chart_slides:
  assumes "build_deck slide_fault chart_fault cd fd chs = Inr deck"
    and "generateAllCharts render priceData revenueData marketShareData enabled = Inr imgs"
  shows "drop 13 deck =
           map (\<lambda>c. \<lparr>kind = ChartSlide (chart_type c), texts = [title c], table = None,
                      image = Some (dataURL c), speaker_notes = None\<rparr>)
             (List.map_filter (\<lambda>t. find (\<lambda>c. chart_type c = t) chs)
                [revenueGrowth, pricePerformance, marketShare])
       \<and> map kind (drop 13 deck) =
           map ChartSlide (filter (\<lambda>t. t \<in> chart_type ` set chs)
                             [revenueGrowth, pricePerformance, marketShare])
       \<and> build_deck slide_fault chart_fault cd (fd\<lparr>charts := flags\<rparr>) chs = Inr deck
       \<and> map chart_type imgs =
           filter (\<lambda>t. enabled t \<and> has_chart_data priceData revenueData marketShareData t)
             [pricePerformance, revenueGrowth, marketShare]
       \<and> map (\<lambda>c. render (chart_type c)) imgs = map (\<lambda>c. Inr (dataURL c)) imgs
       \<and> map title imgs =
           map (\<lambda>c. case chart_type c of
                       pricePerformance \<Rightarrow> ''Stock Price Performance''
                     | revenueGrowth \<Rightarrow> ''Revenue & Growth''
                     | marketShare \<Rightarrow> ''Market Share'') imgs
       \<and> (chs = imgs \<longrightarrow>
            map kind (drop 13 deck) =
              map ChartSlide
                (filter (\<lambda>t. enabled t \<and> has_chart_data priceData revenueData marketShareData t)
                   [revenueGrowth, pricePerformance, marketShare]))
       \<and> (marketShare \<in> chart_type ` set imgs \<longrightarrow>
            (\<exists>d. marketShareData = Some d \<and> 2 \<le> length (share_values d)))
       \<and> length (share_values (calculateMarketShare r n peers revs)) =
           min 6 (1 + length (filter (\<lambda>p. case revs (PeerData.symbol p) of
                                              None \<Rightarrow> False | Some v \<Rightarrow> v > 0) peers))"
proof -
  note D = build_deck_Inr[OF assms(1)]
  note S = generateAllCharts_set[OF assms(2)]
  let ?found = "List.map_filter (\<lambda>t. find (\<lambda>c. chart_type c = t) chs)
                  [revenueGrowth, pricePerformance, marketShare]"
  have d: "drop 13 deck = map addChartSlide ?found"
    unfolding D by (simp add: length_slide_steps chart_order_def)
  have 1: "drop 13 deck =
           map (\<lambda>c. \<lparr>kind = ChartSlide (chart_type c), texts = [title c], table = None,
                      image = Some (dataURL c), speaker_notes = None\<rparr>) ?found"
    unfolding d addChartSlide_def ..
  have 2: "map kind (drop 13 deck) =
           map ChartSlide (filter (\<lambda>t. t \<in> chart_type ` set chs)
                             [revenueGrowth, pricePerformance, marketShare])"
    unfolding d using kind_chart_slides[of chs "[revenueGrowth, pricePerformance, marketShare]"]
    by simp
  have 3: "build_deck slide_fault chart_fault cd (fd\<lparr>charts := flags\<rparr>) chs = Inr deck"
    by (simp only: build_deck_ignores_charts assms(1))
  have 4: "map chart_type imgs =
           filter (\<lambda>t. enabled t \<and> has_chart_data priceData revenueData marketShareData t)
             [pricePerformance, revenueGrowth, marketShare]"
    using assms(2) by (rule generateAllCharts_types)
  have 5: "map (\<lambda>c. render (chart_type c)) imgs = map (\<lambda>c. Inr (dataURL c)) imgs"
    using generateAllCharts_image[OF assms(2)] by (intro map_cong) simp_all
  have 6: "map title imgs =
           map (\<lambda>c. case chart_type c of
                       pricePerformance \<Rightarrow> ''Stock Price Performance''
                     | revenueGrowth \<Rightarrow> ''Revenue & Growth''
                     | marketShare \<Rightarrow> ''Market Share'') imgs"
    using generateAllCharts_image[OF assms(2)] by (intro map_cong) simp_all
  have 7: "chs = imgs \<longrightarrow>
            map kind (drop 13 deck) =
              map ChartSlide
                (filter (\<lambda>t. enabled t \<and> has_chart_data priceData revenueData marketShareData t)
                   [revenueGrowth, pricePerformance, marketShare])"
  proof
    assume "chs = imgs"
    with S have "chart_type ` set chs =
        {t. enabled t \<and> has_chart_data priceData revenueData marketShareData t}" by simp
    then have "filter (\<lambda>t. t \<in> chart_type ` set chs) [revenueGrowth, pricePerformance, marketShare] =
        filter (\<lambda>t. enabled t \<and> has_chart_data priceData revenueData marketShareData t)
          [revenueGrowth, pricePerformance, marketShare]"
      by (intro filter_cong) auto
    with 2 show "map kind (drop 13 deck) =
              map ChartSlide
                (filter (\<lambda>t. enabled t \<and> has_chart_data priceData revenueData marketShareData t)
                   [revenueGrowth, pricePerformance, marketShare])"
      by (simp only:)
  qed
  have 8: "marketShare \<in> chart_type ` set imgs \<longrightarrow>
            (\<exists>d. marketShareData = Some d \<and> 2 \<le> length (share_values d))"
  proof
    assume "marketShare \<in> chart_type ` set imgs"
    then have "has_chart_data priceData revenueData marketShareData marketShare"
      unfolding S by simp
    then show "\<exists>d. marketShareData = Some d \<and> 2 \<le> length (share_values d)"
      by (auto simp: has_chart_data_def split: option.splits)
  qed
  note 9 = length_share_values[of r n peers revs]
  from 1 2 3 4 5 6 7 8 9 show ?thesis by (intro conjI)
qed

theorem C5_chart_slides_witness:
  "generateAllCharts render_ok (Some example_prices) (Some example_revenue) (Some example_shares)
     (charts two_charts_form) = Inr [price_image, share_image]
   \<and> (case build_deck no_fault no_fault example_company two_charts_form [share_image, price_image] of
         Inl m \<Rightarrow> []
       | Inr deck \<Rightarrow> drop 13 deck) =
       [\<lparr>kind = ChartSlide pricePerformance, texts = [''Stock Price Performance''], table = None,
         image = Some ''data:image/png;base64,PRICE'', speaker_notes = None\<rparr>,
        \<lparr>kind = ChartSlide marketShare, texts = [''Market Share''], table = None,
         image = Some ''data:image/png;base64,SHARE'', speaker_notes = None\<rparr>]
   \<and> (case build_deck no_fault no_fault example_company two_charts_form [price_image, share_image] of
         Inl m \<Rightarrow> []
       | Inr deck \<Rightarrow> map kind (drop 13 deck)) =
       [ChartSlide pricePerformance, ChartSlide marketShare]
   \<and> generateAllCharts render_ok (Some example_prices) (Some example_revenue) (Some example_shares)
       all_charts = Inr rendered_charts
   \<and> generateAllCharts render_ok (Some example_prices) (Some example_revenue) (Some lone_share)
       all_charts = Inr [price_image, revenue_image]
   \<and> generateAllCharts render_share_fails (Some example_prices) (Some example_revenue)
       (Some example_shares) all_charts = Inl (ErrorObj ''canvas'')"
proof -
  have g: "generateAllCharts render_ok (Some example_prices) (Some example_revenue)
             (Some example_shares) (charts two_charts_form) = Inr [price_image, share_image]"
    by (simp add: generateAllCharts_def render_block_def render_ok_def has_chart_data_def
        example_prices_def example_revenue_def example_shares_def two_charts_form_def
        two_charts_def price_image_def share_image_def)
  have "build_deck no_fault no_fault example_company two_charts_form [share_image, price_image] =
     Inr (map (\<lambda>s. snd s example_company two_charts_form) slide_steps
          @ map addChartSlide
              (List.map_filter (\<lambda>t. find (\<lambda>c. chart_type c = t) [share_image, price_image])
                 chart_order))"
    by (rule build_deck_no_fault) (simp_all add: no_fault_def)
  then obtain deck where
    b: "build_deck no_fault no_fault example_company two_charts_form [share_image, price_image]
          = Inr deck"
    by (rule that)
  have f: "List.map_filter (\<lambda>t. find (\<lambda>c. chart_type c = t) [share_image, price_image])
             [revenueGrowth, pricePerformance, marketShare] = [price_image, share_image]"
    by (simp add: List.map_filter_simps price_image_def share_image_def)
  from C5_chart_slides[OF b g]
  have "drop 13 deck =
           map (\<lambda>c. \<lparr>kind = ChartSlide (chart_type c), texts = [title c], table = None,
                      image = Some (dataURL c), speaker_notes = None\<rparr>)
             (List.map_filter (\<lambda>t. find (\<lambda>c. chart_type c = t) [share_image, price_image])
                [revenueGrowth, pricePerformance, marketShare])"
    by (rule conjunct1)
  then have d: "drop 13 deck =
       [\<lparr>kind = ChartSlide pricePerformance, texts = [''Stock Price Performance''], table = None,
         image = Some ''data:image/png;base64,PRICE'', speaker_notes = None\<rparr>,
        \<lparr>kind = ChartSlide marketShare, texts = [''Market Share''], table = None,
         image = Some ''data:image/png;base64,SHARE'', speaker_notes = None\<rparr>]"
    unfolding f by (simp add: price_image_def share_image_def)
  have "build_deck no_fault no_fault example_company two_charts_form [price_image, share_image] =
     Inr (map (\<lambda>s. snd s example_company two_charts_form) slide_steps
          @ map addChartSlide
              (List.map_filter (\<lambda>t. find (\<lambda>c. chart_type c = t) [price_image, share_image])
                 chart_order))"
    by (rule build_deck_no_fault) (simp_all add: no_fault_def)
  then obtain deck' where
    b': "build_deck no_fault no_fault example_company two_charts_form [price_image, share_image]
          = Inr deck'"
    by (rule that)
  have h: "has_chart_data (Some example_prices) (Some example_revenue) (Some example_shares) t" for t
    by (cases t) (simp_all add: has_chart_data_def example_prices_def example_revenue_def
        example_shares_def)
  note C5_chart_slides[OF b' g, THEN conjunct2, THEN conjunct2, THEN conjunct2, THEN conjunct2,
      THEN conjunct2, THEN conjunct2, THEN conjunct1]
  then have "[price_image, share_image] = [price_image, share_image] \<longrightarrow>
        map kind (drop 13 deck') =
          map ChartSlide
            (filter (\<lambda>t. charts two_charts_form t
                        \<and> has_chart_data (Some example_prices) (Some example_revenue)
                            (Some example_shares) t)
               [revenueGrowth, pricePerformance, marketShare])" .
  then have "map kind (drop 13 deck') =
          map ChartSlide
            (filter (\<lambda>t. charts two_charts_form t
                        \<and> has_chart_data (Some example_prices) (Some example_revenue)
                            (Some example_shares) t)
               [revenueGrowth, pricePerformance, marketShare])"
    by (simp only: simp_thms)
  then have d': "map kind (drop 13 deck') = [ChartSlide pricePerformance, ChartSlide marketShare]"
    by (simp add: h two_charts_form_def two_charts_def)
  have a: "generateAllCharts render_ok (Some example_prices) (Some example_revenue)
       (Some example_shares) all_charts = Inr rendered_charts"
    by (simp add: generateAllCharts_def render_block_def render_ok_def has_chart_data_def
        example_prices_def example_revenue_def example_shares_def all_charts_def
        rendered_charts_def price_image_def revenue_image_def share_image_def)
  have l: "generateAllCharts render_ok (Some example_prices) (Some example_revenue)
       (Some lone_share) all_charts = Inr [price_image, revenue_image]"
    by (simp add: generateAllCharts_def render_block_def render_ok_def has_chart_data_def
        example_prices_def example_revenue_def lone_share_def all_charts_def
        price_image_def revenue_image_def)
  have e: "generateAllCharts render_share_fails (Some example_prices) (Some example_revenue)
       (Some example_shares) all_charts = Inl (ErrorObj ''canvas'')"
    by (simp add: generateAllCharts_def render_block_def render_share_fails_def render_ok_def
        has_chart_data_def example_prices_def example_revenue_def example_shares_def
        all_charts_def)
  show ?thesis
    by (simp only: g b d b' d' a l e sum.case simp_thms)
qed

subsection \<open>Failures of \<open>build\<close>\<close>

text \<open>
  Claim C6, as stated, fails for the chart slides: when \<open>addChartSlide\<close> throws, the
  error does not tell which chart slide failed. With the same three images, a failure
  on the revenue chart and a failure on the market-share chart give the same error.
\<close>

theorem C6_counterexample:
  "build no_fault (only_fault revenueGrowth (ErrorObj ''boom'')) write_size
     example_company example_form three_charts = Inl ''Failed on chart slide: boom''
   \<and> build no_fault (only_fault marketShare (ErrorObj ''boom'')) write_size
     example_company example_form three_charts = Inl ''Failed on chart slide: boom''"
proof -
  have n: "\<forall>s \<in> set slide_steps. (no_fault :: string \<Rightarrow> thrown option) (fst s) = None"
    by (simp add: no_fault_def)
  have 1: "build no_fault (only_fault revenueGrowth (ErrorObj ''boom'')) write_size
     example_company example_form three_charts
       = Inl (''Failed on chart slide: '' @ thrown_message (ErrorObj ''boom''))"
    by (rule build_chart_failure[where pre = "[]" and t = revenueGrowth
          and post = "[pricePerformance, marketShare]" and chart = "chart_image revenueGrowth", OF n])
       (simp_all add: chart_order_def three_charts_def chart_image_def only_fault_def)
  have 2: "build no_fault (only_fault marketShare (ErrorObj ''boom'')) write_size
     example_company example_form three_charts
       = Inl (''Failed on chart slide: '' @ thrown_message (ErrorObj ''boom''))"
    by (rule build_chart_failure[where pre = "[revenueGrowth, pricePerformance]" and t = marketShare
          and post = "[]" and chart = "chart_image marketShare", OF n])
       (simp_all add: chart_order_def three_charts_def chart_image_def only_fault_def)
  have m: "''Failed on chart slide: '' @ thrown_message (ErrorObj ''boom'')
             = ''Failed on chart slide: boom''"
    by (simp add: thrown_message_def)
  from 1 2 show ?thesis by (simp only: m simp_thms)
qed

text \<open>
  Claim C6, amended. If one of the thirteen fixed steps throws, \<open>build\<close> fails with the
  message \<open>Failed on slide "name": ...\<close> carrying the name of the first step that throws.
  If the fixed steps pass and \<open>addChartSlide\<close> throws on a chart that is present,
  \<open>build\<close> fails with \<open>Failed on chart slide: ...\<close>, which does not name the chart. If all
  slides are built and the serialisation throws, \<open>build\<close> fails with
  \<open>Failed generating PowerPoint file: ...\<close>, a message that differs from both slide
  messages whatever the wrapped texts are. \<open>build\<close> returns a blob only when it is the
  serialisation of a deck that begins with all thirteen fixed slides.
\<close>

theorem C6_build_failures:
  "(slide_steps = pre @ (name, fn) # post
      \<and> (\<forall>s \<in> set pre. slide_fault (fst s) = None) \<and> slide_fault name = Some e
      \<longrightarrow> build slide_fault chart_fault write cd fd chs
            = Inl (''Failed on slide \"'' @ name @ ''\": '' @ thrown_message e))
   \<and> ((\<forall>s \<in> set slide_steps. slide_fault (fst s) = None)
      \<and> chart_order = cpre @ t # cpost
      \<and> (\<forall>u \<in> set cpre. chart_fault u = None \<or> find (\<lambda>c. chart_type c = u) chs = None)
      \<and> find (\<lambda>c. chart_type c = t) chs = Some chart \<and> chart_fault t = Some e
      \<longrightarrow> build slide_fault chart_fault write cd fd chs
            = Inl (''Failed on chart slide: '' @ thrown_message e))
   \<and> (build_deck slide_fault chart_fault cd fd chs = Inr deck \<and> write deck = Inl e
      \<longrightarrow> build slide_fault chart_fault write cd fd chs
            = Inl (''Failed generating PowerPoint file: '' @ thrown_message e))
   \<and> (build slide_fault chart_fault write cd fd chs = Inr blob
      \<longrightarrow> (\<exists>full. build_deck slide_fault chart_fault cd fd chs = Inr full
                  \<and> write full = Inr blob \<and> take 13 full = map (\<lambda>s. snd s cd fd) slide_steps))
   \<and> ''Failed generating PowerPoint file: '' @ x \<noteq> ''Failed on slide \"'' @ y
   \<and> ''Failed generating PowerPoint file: '' @ x \<noteq> ''Failed on chart slide: '' @ z"
proof (intro conjI impI)
  assume "slide_steps = pre @ (name, fn) # post
      \<and> (\<forall>s \<in> set pre. slide_fault (fst s) = None) \<and> slide_fault name = Some e"
  then show "build slide_fault chart_fault write cd fd chs
            = Inl (''Failed on slide \"'' @ name @ ''\": '' @ thrown_message e)"
    using build_slide_failure by blast
next
  assume "(\<forall>s \<in> set slide_steps. slide_fault (fst s) = None)
      \<and> chart_order = cpre @ t # cpost
      \<and> (\<forall>u \<in> set cpre. chart_fault u = None \<or> find (\<lambda>c. chart_type c = u) chs = None)
      \<and> find (\<lambda>c. chart_type c = t) chs = Some chart \<and> chart_fault t = Some e"
  then show "build slide_fault chart_fault write cd fd chs
            = Inl (''Failed on chart slide: '' @ thrown_message e)"
    using build_chart_failure by blast
next
  assume "build_deck slide_fault chart_fault cd fd chs = Inr deck \<and> write deck = Inl e"
  then show "build slide_fault chart_fault write cd fd chs
            = Inl (''Failed generating PowerPoint file: '' @ thrown_message e)"
    by (simp add: build_write)
next
  assume B: "build slide_fault chart_fault write cd fd chs = Inr blob"
  from build_Inr[OF B] obtain full
    where f: "build_deck slide_fault chart_fault cd fd chs = Inr full"
      and w: "write full = Inr blob"
    by (elim exE conjE)
  from f obtain d where d: "run_slide_steps slide_fault cd fd slide_steps [] = Inr d"
    and a: "add_chart_slides chart_fault chs chart_order d = Inr full"
    by (auto simp: build_deck_def split: sum.splits)
  from run_slide_steps_Inr[OF d] have d': "d = map (\<lambda>s. snd s cd fd) slide_steps" by simp
  have "length d = 13" unfolding d' by (simp add: slide_steps_def)
  with add_chart_slides_Inr[OF a] have "take 13 full = d" by simp
  with d' have t: "take 13 full = map (\<lambda>s. snd s cd fd) slide_steps" by simp
  from f w t show "\<exists>full. build_deck slide_fault chart_fault cd fd chs = Inr full
                  \<and> write full = Inr blob \<and> take 13 full = map (\<lambda>s. snd s cd fd) slide_steps"
    by (intro exI[of _ full] conjI)
next
  show "''Failed generating PowerPoint file: '' @ x \<noteq> ''Failed on slide \"'' @ y" by simp
  show "''Failed generating PowerPoint file: '' @ x \<noteq> ''Failed on chart slide: '' @ z" by simp
qed


theorem C6_build_failures_witness:
  "build (only_fault ''KeyMetrics'' (ErrorObj ''boom'')) no_fault write_size
     example_company example_form three_charts = Inl ''Failed on slide \"KeyMetrics\": boom''
   \<and> build no_fault (only_fault pricePerformance OtherThrown) write_size
     example_company example_form three_charts = Inl ''Failed on chart slide: Unknown error''
   \<and> build no_fault no_fault write_fails
     example_company example_form three_charts = Inl ''Failed generating PowerPoint file: disk full''
   \<and> build no_fault no_fault write_size example_company example_form three_charts = Inr 16"
proof -
  have n: "\<forall>s \<in> set slide_steps. (no_fault :: string \<Rightarrow> thrown option) (fst s) = None"
    by (simp add: no_fault_def)
  have c: "\<forall>t \<in> set chart_order. (no_fault :: ChartType \<Rightarrow> thrown option) t = None
             \<or> find (\<lambda>c. chart_type c = t) three_charts = None"
    by (simp add: no_fault_def)
  let ?full = "map (\<lambda>s. snd s example_company example_form) slide_steps
          @ map addChartSlide
              (List.map_filter (\<lambda>t. find (\<lambda>c. chart_type c = t) three_charts) chart_order)"
  have d: "build_deck no_fault no_fault example_company example_form three_charts = Inr ?full"
    using n c by (rule build_deck_no_fault)
  have l: "length ?full = 16"
    by (simp add: slide_steps_def chart_order_def three_charts_def chart_image_def)
  have 1: "build (only_fault ''KeyMetrics'' (ErrorObj ''boom'')) no_fault write_size
     example_company example_form three_charts
       = Inl (''Failed on slide \"'' @ ''KeyMetrics'' @ ''\": '' @ thrown_message (ErrorObj ''boom''))"
    by (rule C6_build_failures[where pre = "take 5 slide_steps" and name = "''KeyMetrics''"
          and fn = addKeyMetrics and post = "drop 6 slide_steps", THEN conjunct1, THEN mp])
       (simp add: slide_steps_def only_fault_def)
  have 2: "build no_fault (only_fault pricePerformance OtherThrown) write_size
     example_company example_form three_charts
       = Inl (''Failed on chart slide: '' @ thrown_message OtherThrown)"
    by (rule C6_build_failures[where cpre = "[revenueGrowth]" and t = pricePerformance
          and cpost = "[marketShare]" and chart = "chart_image pricePerformance",
          THEN conjunct2, THEN conjunct1, THEN mp])
       (simp add: chart_order_def three_charts_def chart_image_def only_fault_def no_fault_def)
  have 3: "build no_fault no_fault write_fails example_company example_form three_charts
       = Inl (''Failed generating PowerPoint file: '' @ thrown_message (ErrorObj ''disk full''))"
    by (rule C6_build_failures[where deck = ?full,
          THEN conjunct2, THEN conjunct2, THEN conjunct1, THEN mp])
       (simp only: d write_fails_def simp_thms)
  have 4: "build no_fault no_fault write_size example_company example_form three_charts = Inr 16"
    by (simp only: build_write[OF d] write_size_def l sum.case)
  from 1 2 3 4 show ?thesis by (simp add: thrown_message_def)
qed

subsection \<open>The branches of \<open>handler\<close>\<close>

lemma fetch_profile_error_codes:
  "(\<exists>e. fetchAllCompanyData u (HttpError 429 m) others = Inl e \<and> code e = Some RATE_LIMIT)
   \<and> (\<exists>e. fetchAllCompanyData u Aborted others = Inl e \<and> code e = Some TIMEOUT)
   \<and> (\<exists>e. fetchAllCompanyData u NoResponse others = Inl e \<and> code e = Some NETWORK_ERROR)
   \<and> (\<exists>e. fetchAllCompanyData u (HttpError 401 m) others = Inl e \<and> code e = Some AUTH_ERROR)
   \<and> (\<exists>e. fetchAllCompanyData u (Response []) others = Inl e \<and> code e = Some NOT_FOUND)"
  by (simp add: fetchAllCompanyData_def getCompanyProfile_def fmpRequest_def createAPIError_def)

lemma handler_no_key:
  assumes "s \<noteq> []" and "apiKey = None \<or> apiKey = Some []"
  shows "handler ''GET'' (Some s) apiKey fmp yahoo = yahoo_step (toUpperCase s) yahoo []"
  using assms by (auto simp: handler_def Let_def)

lemma handler_fmp_ok:
  assumes "s \<noteq> []" and "apiKey \<noteq> None" and "apiKey \<noteq> Some []"
    and "fmp (toUpperCase s) = Inr companyData" and "profile companyData \<noteq> None"
  shows "handler ''GET'' (Some s) apiKey fmp yahoo = (\<lparr>status = 200, body = Data companyData\<rparr>, [FMP])"
  using assms by (simp add: handler_def Let_def)

lemma handler_fmp_auth:
  assumes "s \<noteq> []" and "apiKey \<noteq> None" and "apiKey \<noteq> Some []"
    and "fmp (toUpperCase s) = Inl err" and "code err = Some AUTH_ERROR"
  shows "handler ''GET'' (Some s) apiKey fmp yahoo =
           (\<lparr>status = 401, body = ErrorBody ''Invalid API key'' (message err)\<rparr>, [FMP])"
  using assms by (simp add: handler_def Let_def)

lemma handler_fmp_fallback:
  assumes "s \<noteq> []" and "apiKey \<noteq> None" and "apiKey \<noteq> Some []"
    and "fmp (toUpperCase s) = Inl err"
    and "code err \<in> {Some RATE_LIMIT, Some NETWORK_ERROR, Some TIMEOUT, Some NOT_FOUND}"
  shows "handler ''GET'' (Some s) apiKey fmp yahoo = yahoo_step (toUpperCase s) yahoo [FMP]"
  using assms by (auto simp: handler_def Let_def)

lemma yahoo_step_called: "snd (yahoo_step u yahoo called) = called @ [Yahoo]"
  by (simp add: yahoo_step_def split: sum.splits)

lemma yahoo_step_accept:
  "yahoo u = Inr ycd \<Longrightarrow> profile ycd \<noteq> None \<Longrightarrow>
   fst (yahoo_step u yahoo called) = \<lparr>status = 200, body = Data ycd\<rparr>"
  by (simp add: yahoo_step_def)

lemma yahoo_step_status:
  "status (fst (yahoo_step u yahoo called)) =
     (case yahoo u of Inl e \<Rightarrow> 500 | Inr ycd \<Rightarrow> if profile ycd \<noteq> None then 200 else 404)"
  by (simp add: yahoo_step_def split: sum.splits)

subsection \<open>When the secondary provider is called\<close>

text \<open>
  Claim C4, as stated, fails: the secondary provider is also called when the primary
  one reports that the symbol is unknown. Here the primary provider answers the
  profile request with an empty array, \<open>fetchAllCompanyData\<close> throws \<open>NOT_FOUND\<close>, and
  \<open>handler\<close> goes on to call Yahoo.
\<close>

theorem C4_counterexample:
  "fmp_empty_profile ''ZZZZ'' = Inl \<lparr>message = ''Company not found: ZZZZ'', code = Some NOT_FOUND\<rparr>
   \<and> snd (handler ''GET'' (Some ''zzzz'') (Some ''key'') fmp_empty_profile yahoo_found)
       = [FMP, Yahoo]"
proof -
  have u: "toUpperCase ''zzzz'' = ''ZZZZ''" by (simp add: toUpperCase_def upper_char_def)
  have 1: "fmp_empty_profile ''ZZZZ''
             = Inl \<lparr>message = ''Company not found: ZZZZ'', code = Some NOT_FOUND\<rparr>"
    by (simp add: fmp_empty_profile_def fetchAllCompanyData_def getCompanyProfile_def
        fmpRequest_def createAPIError_def)
  have "handler ''GET'' (Some ''zzzz'') (Some ''key'') fmp_empty_profile yahoo_found
        = yahoo_step (toUpperCase ''zzzz'') yahoo_found [FMP]"
    by (rule handler_fmp_fallback[where fmp = fmp_empty_profile
          and err = "\<lparr>message = ''Company not found: ZZZZ'', code = Some NOT_FOUND\<rparr>"])
       (simp_all add: u 1)
  then have 2: "snd (handler ''GET'' (Some ''zzzz'') (Some ''key'') fmp_empty_profile yahoo_found)
        = [FMP, Yahoo]"
    by (simp add: yahoo_step_called)
  from 1 2 show ?thesis by (rule conjI)
qed

text \<open>
  Claim C4, amended. For a GET request with a symbol: when an API key is configured and
  the primary aggregation fails with \<open>RATE_LIMIT\<close>, \<open>NETWORK_ERROR\<close>, \<open>TIMEOUT\<close> or
  \<open>NOT_FOUND\<close>, the secondary provider is called after the primary one; when it fails
  with \<open>AUTH_ERROR\<close> the answer is status 401 and the secondary provider is not called;
  when it returns data with a profile that data is the answer and the secondary
  provider is not called; without an API key only the secondary provider is called.
  Whenever the secondary provider is called and returns data with a profile, that data
  is the answer with status 200, whatever statements it carries. A 429 status, a
  timeout, a missing response and an empty profile array on the profile request make
  \<open>fetchAllCompanyData\<close> fail with \<open>RATE_LIMIT\<close>, \<open>TIMEOUT\<close>, \<open>NETWORK_ERROR\<close> and
  \<open>NOT_FOUND\<close>.
\<close>

theorem C4_fallback:
  assumes "s \<noteq> []" and "handler ''GET'' (Some s) apiKey fmp yahoo = (resp, called)"
  shows "(apiKey \<noteq> None \<and> apiKey \<noteq> Some [] \<and> fmp (toUpperCase s) = Inl err
            \<and> code err \<in> {Some RATE_LIMIT, Some NETWORK_ERROR, Some TIMEOUT, Some NOT_FOUND}
          \<longrightarrow> called = [FMP, Yahoo])
       \<and> (apiKey \<noteq> None \<and> apiKey \<noteq> Some [] \<and> fmp (toUpperCase s) = Inl err
            \<and> code err = Some AUTH_ERROR
          \<longrightarrow> called = [FMP] \<and> status resp = 401)
       \<and> (apiKey \<noteq> None \<and> apiKey \<noteq> Some [] \<and> fmp (toUpperCase s) = Inr companyData
            \<and> profile companyData \<noteq> None
          \<longrightarrow> called = [FMP] \<and> resp = \<lparr>status = 200, body = Data companyData\<rparr>)
       \<and> (apiKey = None \<or> apiKey = Some [] \<longrightarrow> called = [Yahoo])
       \<and> (Yahoo \<in> set called \<and> yahoo (toUpperCase s) = Inr ycd \<and> profile ycd \<noteq> None
          \<longrightarrow> resp = \<lparr>status = 200, body = Data ycd\<rparr>)
       \<and> (\<exists>e. fetchAllCompanyData u (HttpError 429 m) others = Inl e \<and> code e = Some RATE_LIMIT)
       \<and> (\<exists>e. fetchAllCompanyData u Aborted others = Inl e \<and> code e = Some TIMEOUT)
       \<and> (\<exists>e. fetchAllCompanyData u NoResponse others = Inl e \<and> code e = Some NETWORK_ERROR)
       \<and> (\<exists>e. fetchAllCompanyData u (Response []) others = Inl e \<and> code e = Some NOT_FOUND)"
proof -
  note h = assms(2)
  have a: "apiKey \<noteq> None \<and> apiKey \<noteq> Some [] \<and> fmp (toUpperCase s) = Inl err
            \<and> code err \<in> {Some RATE_LIMIT, Some NETWORK_ERROR, Some TIMEOUT, Some NOT_FOUND}
          \<longrightarrow> called = [FMP, Yahoo]"
  proof
    assume p: "apiKey \<noteq> None \<and> apiKey \<noteq> Some [] \<and> fmp (toUpperCase s) = Inl err
            \<and> code err \<in> {Some RATE_LIMIT, Some NETWORK_ERROR, Some TIMEOUT, Some NOT_FOUND}"
    then have "handler ''GET'' (Some s) apiKey fmp yahoo = yahoo_step (toUpperCase s) yahoo [FMP]"
      using assms(1) by (intro handler_fmp_fallback) auto
    with h have "called = snd (yahoo_step (toUpperCase s) yahoo [FMP])" by simp
    then show "called = [FMP, Yahoo]" by (simp add: yahoo_step_called)
  qed
  have b: "apiKey \<noteq> None \<and> apiKey \<noteq> Some [] \<and> fmp (toUpperCase s) = Inl err
            \<and> code err = Some AUTH_ERROR
          \<longrightarrow> called = [FMP] \<and> status resp = 401"
  proof
    assume p: "apiKey \<noteq> None \<and> apiKey \<noteq> Some [] \<and> fmp (toUpperCase s) = Inl err
            \<and> code err = Some AUTH_ERROR"
    then have "handler ''GET'' (Some s) apiKey fmp yahoo =
           (\<lparr>status = 401, body = ErrorBody ''Invalid API key'' (message err)\<rparr>, [FMP])"
      using assms(1) by (intro handler_fmp_auth) simp_all
    with h show "called = [FMP] \<and> status resp = 401" by auto
  qed
  have c: "apiKey \<noteq> None \<and> apiKey \<noteq> Some [] \<and> fmp (toUpperCase s) = Inr companyData
            \<and> profile companyData \<noteq> None
          \<longrightarrow> called = [FMP] \<and> resp = \<lparr>status = 200, body = Data companyData\<rparr>"
  proof
    assume p: "apiKey \<noteq> None \<and> apiKey \<noteq> Some [] \<and> fmp (toUpperCase s) = Inr companyData
            \<and> profile companyData \<noteq> None"
    then have "handler ''GET'' (Some s) apiKey fmp yahoo =
           (\<lparr>status = 200, body = Data companyData\<rparr>, [FMP])"
      using assms(1) by (intro handler_fmp_ok) simp_all
    with h show "called = [FMP] \<and> resp = \<lparr>status = 200, body = Data companyData\<rparr>" by auto
  qed
  have d: "apiKey = None \<or> apiKey = Some [] \<longrightarrow> called = [Yahoo]"
  proof
    assume "apiKey = None \<or> apiKey = Some []"
    then have "handler ''GET'' (Some s) apiKey fmp yahoo = yahoo_step (toUpperCase s) yahoo []"
      using assms(1) by (intro handler_no_key)
    with h have "called = snd (yahoo_step (toUpperCase s) yahoo [])" by simp
    then show "called = [Yahoo]" by (simp add: yahoo_step_called)
  qed
  have e: "Yahoo \<in> set called \<and> yahoo (toUpperCase s) = Inr ycd \<and> profile ycd \<noteq> None
          \<longrightarrow> resp = \<lparr>status = 200, body = Data ycd\<rparr>"
  proof
    assume p: "Yahoo \<in> set called \<and> yahoo (toUpperCase s) = Inr ycd \<and> profile ycd \<noteq> None"
    have "\<exists>c. handler ''GET'' (Some s) apiKey fmp yahoo = yahoo_step (toUpperCase s) yahoo c"
    proof (rule ccontr)
      assume n: "\<not> ?thesis"
      with assms(1) have "snd (handler ''GET'' (Some s) apiKey fmp yahoo) = [FMP]"
        by (auto simp: handler_def Let_def split: sum.splits if_splits)
      with h p show False by simp
    qed
    then obtain c where "handler ''GET'' (Some s) apiKey fmp yahoo = yahoo_step (toUpperCase s) yahoo c"
      by (elim exE)
    with h have "resp = fst (yahoo_step (toUpperCase s) yahoo c)" by simp
    with p show "resp = \<lparr>status = 200, body = Data ycd\<rparr>" by (simp add: yahoo_step_accept)
  qed
  from a b c d e fetch_profile_error_codes[of u m others] show ?thesis
    by (intro conjI) simp_all
qed


theorem C4_fallback_witness:
  "handler ''GET'' (Some ''zzzz'') (Some ''key'') fmp_rate_limited yahoo_found
     = (\<lparr>status = 200, body = Data yahoo_company\<rparr>, [FMP, Yahoo])
   \<and> incomeStatements yahoo_company = []"
proof -
  have u: "toUpperCase ''zzzz'' = ''ZZZZ''" by (simp add: toUpperCase_def upper_char_def)
  let ?err = "\<lparr>message = ''API rate limit exceeded. Please try again later.'',
                code = Some RATE_LIMIT\<rparr>"
  have f: "fmp_rate_limited (toUpperCase ''zzzz'') = Inl ?err"
    by (simp add: fmp_rate_limited_def fetchAllCompanyData_def getCompanyProfile_def
        fmpRequest_def createAPIError_def)
  obtain resp called where
    h: "handler ''GET'' (Some ''zzzz'') (Some ''key'') fmp_rate_limited yahoo_found = (resp, called)"
    by (rule prod.exhaust)
  have s: "''zzzz'' \<noteq> []" by simp
  note T = C4_fallback[OF s h, where err = ?err and ycd = yahoo_company]
  have c: "called = [FMP, Yahoo]"
    by (rule T[THEN conjunct1, THEN mp]) (simp add: f)
  have r: "resp = \<lparr>status = 200, body = Data yahoo_company\<rparr>"
    by (rule T[THEN conjunct2, THEN conjunct2, THEN conjunct2, THEN conjunct2,
               THEN conjunct1, THEN mp])
       (simp add: c yahoo_found_def yahoo_company_def)
  have i: "incomeStatements yahoo_company = []" by (simp add: yahoo_company_def)
  from h c r i show ?thesis by simp
qed

subsection \<open>The growth loops\<close>

lemma calculateRevenueGrowth_sort_key:
  "calculateRevenueGrowth S = growth_loop (sort_key date S)"
  by (simp add: calculateRevenueGrowth_def js_sort_key)

text \<open>The loop visits every pair of neighbours of the list, in order.\<close>

lemma growth_loop_zip:
  "growth_loop xs =
     concat (map (\<lambda>(p, c).
                    if js_positive (ToNumber (revenue p))
                    then [\<lparr>year = calendarYear c,
                           growth = round_1dp (growth_value (ToNumber (revenue p))
                                                 (ToNumber (revenue c)))\<rparr>]
                    else [])
            (zip xs (tl xs)))"
  by (induction xs rule: growth_loop.induct) (simp_all add: Let_def)

lemma rate_loop_zip:
  "rate_loop xs =
     map (\<lambda>(p, c).
            if js_positive (ToNumber (revenue p))
            then Some (growth_value (ToNumber (revenue p)) (ToNumber (revenue c)))
            else None)
       (zip xs (tl xs))"
  by (induction xs rule: rate_loop.induct) (simp_all add: Let_def)

lemma growth_loop_length:
  "length (growth_loop xs) =
     length (filter (\<lambda>s. js_positive (ToNumber (revenue s))) (butlast xs))"
  by (induction xs rule: growth_loop.induct) (simp_all add: Let_def)

lemma growth_loop_le: "length (growth_loop xs) \<le> length xs - 1"
proof -
  have "length (growth_loop xs) \<le> length (butlast xs)"
    unfolding growth_loop_length by (rule length_filter_le)
  then show ?thesis by simp
qed

lemma growth_loop_years:
  "\<forall>s \<in> set (butlast xs). js_positive (ToNumber (revenue s)) \<Longrightarrow>
   map year (growth_loop xs) = map calendarYear (tl xs)"
  by (induction xs rule: growth_loop.induct) (auto simp: Let_def)

lemma rate_loop_length: "length (rate_loop xs) = length xs - 1"
  by (induction xs rule: rate_loop.induct) auto

text \<open>The operations on the way from the revenues of \<open>mixed_series\<close> to its growth rates.\<close>

lemma ToNumber_values:
  "ToNumber (Number 10) = Num 10" "ToNumber (Number 0) = Num 0" "ToNumber (Number 80) = Num 80"
  "ToNumber (Number 103) = Num 103" "ToNumber Null = Num 0" "ToNumber Undefined = NaN"
  "ToNumber (Number 100) = Num 100" "ToNumber (Number 110) = Num 110"
  "ToNumber (Number 121) = Num 121"
  using dbl_of_int[of 10] dbl_of_int[of 80] dbl_of_int[of 103] dbl_of_int[of 100]
    dbl_of_int[of 110] dbl_of_int[of 121]
  by (simp_all add: ToNumber_def dbl_def)

lemma growth_steps_80_103:
  "dbl_minus (Num 103) (Num 80) = Num 23"
  "dbl_over (Num 23) (Num 80) = Num (2589569785738035 / 9007199254740992)"
  "dbl_times (Num (2589569785738035 / 9007199254740992)) (Num 100) =
     Num (8092405580431359 / 281474976710656)"
  "dbl_times (Num (8092405580431359 / 281474976710656)) (Num 10) =
     Num (5057753487769599 / 17592186044416)"
  "js_round (Num (5057753487769599 / 17592186044416)) = Num 287"
  "dbl_over (Num 287) (Num 10) = Num (8078331831595827 / 281474976710656)"
proof -
  have "dbl_minus (Num 103) (Num 80) = dbl 23" by (simp add: dbl_minus_def)
  then show "dbl_minus (Num 103) (Num 80) = Num 23" by (simp only: dbl_integers)
  have "dbl_over (Num 23) (Num 80) = dbl (23 / 80)" by (simp add: dbl_over_def)
  then show "dbl_over (Num 23) (Num 80) = Num (2589569785738035 / 9007199254740992)"
    by (simp only: dbl_values)
  show "dbl_times (Num (2589569785738035 / 9007199254740992)) (Num 100) =
     Num (8092405580431359 / 281474976710656)"
    by (simp only: dbl_times_def jsnum.case dbl_values)
  show "dbl_times (Num (8092405580431359 / 281474976710656)) (Num 10) =
     Num (5057753487769599 / 17592186044416)"
    by (simp only: dbl_times_def jsnum.case dbl_values)
  show "js_round (Num (5057753487769599 / 17592186044416)) = Num 287"
    by (simp add: js_round_def Math_round_def floor_rat_numeral_div)
  have "dbl_over (Num 287) (Num 10) = dbl (287 / 10)" by (simp add: dbl_over_def)
  then show "dbl_over (Num 287) (Num 10) = Num (8078331831595827 / 281474976710656)"
    by (simp only: dbl_values)
qed

lemma growth_steps_to_zero:
  "dbl_minus (Num 0) (Num 10) = Num (- 10)"
  "dbl_minus (Num 0) (Num 103) = Num (- 103)"
  "dbl_over (Num (- 10)) (Num 10) = Num (- 1)"
  "dbl_over (Num (- 103)) (Num 103) = Num (- 1)"
  "dbl_times (Num (- 1)) (Num 100) = Num (- 100)"
  "dbl_times (Num (- 100)) (Num 10) = Num (- 1000)"
  "js_round (Num (- 1000)) = Num (- 1000)"
  "dbl_over (Num (- 1000)) (Num 10) = Num (- 100)"
  by (simp_all add: dbl_minus_def dbl_over_def dbl_times_def js_round_def Math_round_def
      dbl_integers floor_rat_minus_numeral_div)

subsection \<open>Revenue growth\<close>

text \<open>
  Claim C3, as stated, fails: a pair of consecutive years is skipped when the revenue of
  the earlier year is not positive. For a series of two statements whose first year has
  revenue 0, \<open>calculateRevenueGrowth\<close> returns no entry at all, not one.
\<close>

theorem C3_counterexample:
  "calculateRevenueGrowth zero_base_series = [] \<and> length zero_base_series = 2"
  by (simp add: calculateRevenueGrowth_def js_sort_def cmp_le0_def zero_base_series_def
      revenue_statement_def Let_def ToNumber_values js_positive_def)

text \<open>
  Claim C3, amended. \<open>calculateRevenueGrowth\<close> sorts the series ascending by date and walks
  the pairs of neighbours of the sorted series in order. It returns one entry for each
  pair whose earlier revenue is a positive number and none for the other pairs, so as
  many entries as there are statements with a positive revenue before the latest one,
  never more than \<open>|S| - 1\<close>. A revenue is positive when it is a number that the
  parser rounds to a positive double, that is a number above \<open>2 ^ (- 1075)\<close>; \<open>null\<close> and
  \<open>undefined\<close> are not. The entry of a pair carries the calendar year of the later
  statement and the growth \<open>Math.round(g * 10) / 10\<close>, where \<open>g\<close> is
  \<open>((curr - prev) / prev) * 100\<close>, every operation being rounded to the nearest double;
  a current revenue \<open>null\<close> counts as \<open>0\<close> and an \<open>undefined\<close> one gives \<open>NaN\<close>. When every
  statement but the latest has a positive revenue there are exactly \<open>|S| - 1\<close> entries
  and their years are those of the sorted series without its first statement, so the
  first entry belongs to the second-earliest year. \<open>calculateRevenueGrowth\<close> has no entry
  for the first year; the marker for the first year is the leading \<open>null\<close> of the list
  \<open>growthRates\<close> of \<open>processRevenueData\<close>, which sorts by calendar year and has one element
  per statement (and the single \<open>null\<close> for an empty series): after the leading \<open>null\<close>,
  the unrounded \<open>g\<close> of each pair of neighbours whose earlier revenue is positive and
  \<open>null\<close> for each other pair.
\<close>

theorem C3_revenue_growth:
  "calculateRevenueGrowth S =
     concat (map (\<lambda>(p, c).
                    if js_positive (ToNumber (revenue p))
                    then [\<lparr>year = calendarYear c,
                           growth = dbl_over (js_round (dbl_times
                             (dbl_times (dbl_over (dbl_minus (ToNumber (revenue c))
                                                      (ToNumber (revenue p)))
                                           (ToNumber (revenue p)))
                                (Num 100))
                             (Num 10))) (Num 10)\<rparr>]
                    else [])
            (zip (sort_key date S) (tl (sort_key date S))))
   \<and> sorted (map date (sort_key date S))
   \<and> set (sort_key date S) = set S \<and> length (sort_key date S) = length S
   \<and> length (calculateRevenueGrowth S) =
       length (filter (\<lambda>s. js_positive (ToNumber (revenue s))) (butlast (sort_key date S)))
   \<and> length (calculateRevenueGrowth S) \<le> length S - 1
   \<and> ((\<forall>s \<in> set (butlast (sort_key date S)). js_positive (ToNumber (revenue s))) \<longrightarrow>
        length (calculateRevenueGrowth S) = length S - 1
        \<and> map year (calculateRevenueGrowth S) = map calendarYear (tl (sort_key date S)))
   \<and> growthRates (processRevenueData S) =
       None #
       map (\<lambda>(p, c).
              if js_positive (ToNumber (revenue p))
              then Some (dbl_times (dbl_over (dbl_minus (ToNumber (revenue c))
                                                (ToNumber (revenue p)))
                                     (ToNumber (revenue p)))
                          (Num 100))
              else None)
         (zip (js_sort (\<lambda>a b. nan_minus (parseInt (calendarYear a)) (parseInt (calendarYear b))) S)
              (tl (js_sort (\<lambda>a b. nan_minus (parseInt (calendarYear a)) (parseInt (calendarYear b))) S)))
   \<and> length (growthRates (processRevenueData S)) = max 1 (length S)
   \<and> js_positive (ToNumber v) =
       (case v of Number x \<Rightarrow> pow2 (- 1075) < x | Null \<Rightarrow> False | Undefined \<Rightarrow> False)
   \<and> ToNumber Null = Num 0 \<and> ToNumber Undefined = NaN \<and> ToNumber (Number x) = dbl x"
proof -
  let ?xs = "sort_key date S"
  have 1: "calculateRevenueGrowth S =
     concat (map (\<lambda>(p, c).
                    if js_positive (ToNumber (revenue p))
                    then [\<lparr>year = calendarYear c,
                           growth = dbl_over (js_round (dbl_times
                             (dbl_times (dbl_over (dbl_minus (ToNumber (revenue c))
                                                      (ToNumber (revenue p)))
                                           (ToNumber (revenue p)))
                                (Num 100))
                             (Num 10))) (Num 10)\<rparr>]
                    else [])
            (zip ?xs (tl ?xs)))"
    unfolding calculateRevenueGrowth_sort_key growth_loop_zip[of ?xs]
    by (simp only: round_1dp_def growth_value_def)
  have 2: "sorted (map date ?xs) \<and> set ?xs = set S \<and> length ?xs = length S" by simp
  have 3: "length (calculateRevenueGrowth S) =
       length (filter (\<lambda>s. js_positive (ToNumber (revenue s))) (butlast ?xs))"
    unfolding calculateRevenueGrowth_sort_key by (rule growth_loop_length)
  have 4: "length (calculateRevenueGrowth S) \<le> length S - 1"
    using growth_loop_le[of ?xs] by (simp add: calculateRevenueGrowth_sort_key)
  have 5: "(\<forall>s \<in> set (butlast ?xs). js_positive (ToNumber (revenue s))) \<longrightarrow>
        length (calculateRevenueGrowth S) = length S - 1
        \<and> map year (calculateRevenueGrowth S) = map calendarYear (tl ?xs)"
  proof
    assume a: "\<forall>s \<in> set (butlast ?xs). js_positive (ToNumber (revenue s))"
    have y: "map year (calculateRevenueGrowth S) = map calendarYear (tl ?xs)"
      unfolding calculateRevenueGrowth_sort_key using a by (rule growth_loop_years)
    have "length (map year (calculateRevenueGrowth S)) = length (map calendarYear (tl ?xs))"
      by (simp only: y)
    then have "length (calculateRevenueGrowth S) = length S - 1" by simp
    with y show "length (calculateRevenueGrowth S) = length S - 1
        \<and> map year (calculateRevenueGrowth S) = map calendarYear (tl ?xs)" by simp
  qed
  have 6: "growthRates (processRevenueData S) =
       None #
       map (\<lambda>(p, c).
              if js_positive (ToNumber (revenue p))
              then Some (dbl_times (dbl_over (dbl_minus (ToNumber (revenue c))
                                                (ToNumber (revenue p)))
                                     (ToNumber (revenue p)))
                          (Num 100))
              else None)
         (zip (js_sort (\<lambda>a b. nan_minus (parseInt (calendarYear a)) (parseInt (calendarYear b))) S)
              (tl (js_sort (\<lambda>a b. nan_minus (parseInt (calendarYear a)) (parseInt (calendarYear b))) S)))"
    unfolding processRevenueData_def Let_def rate_loop_zip growth_value_def by simp
  have 7: "length (growthRates (processRevenueData S)) = max 1 (length S)"
    by (simp add: processRevenueData_def Let_def rate_loop_length)
  have 8: "js_positive (ToNumber v) =
       (case v of Number x \<Rightarrow> pow2 (- 1075) < x | Null \<Rightarrow> False | Undefined \<Rightarrow> False)"
    by (cases v) (simp_all add: ToNumber_def dbl_positive, simp_all add: js_positive_def)
  have 9: "ToNumber Null = Num 0 \<and> ToNumber Undefined = NaN \<and> ToNumber (Number x) = dbl x"
    by (simp add: ToNumber_def)
  from 1 2 3 4 5 6 7 8 9 show ?thesis by (intro conjI) simp_all
qed

theorem C3_revenue_growth_witness:
  "calculateRevenueGrowth mixed_series =
     [\<lparr>year = ''2020'', growth = Num (- 100)\<rparr>,
      \<lparr>year = ''2022'', growth = Num (8078331831595827 / 281474976710656)\<rparr>,
      \<lparr>year = ''2023'', growth = Num (- 100)\<rparr>]
   \<and> dbl (287 / 10) = Num (8078331831595827 / 281474976710656)
   \<and> Math_round ((103 - 80) / 80 * 100 * 10) = 288
   \<and> growthRates (processRevenueData mixed_series) =
       [None, Some (Num (- 100)), None, Some (Num (8092405580431359 / 281474976710656)),
        Some (Num (- 100))]
   \<and> length (calculateRevenueGrowth growth_series) = length growth_series - 1
   \<and> map year (calculateRevenueGrowth growth_series) = [''2021'', ''2022'']"
proof -
  have m: "sort_key date mixed_series =
      [revenue_statement 1 ''2019'' (Number 10), revenue_statement 2 ''2020'' (Number 0),
       revenue_statement 3 ''2021'' (Number 80), revenue_statement 4 ''2022'' (Number 103),
       revenue_statement 5 ''2023'' Null]"
    by (simp add: mixed_series_def revenue_statement_def)
  have y: "js_sort (\<lambda>a b. nan_minus (parseInt (calendarYear a)) (parseInt (calendarYear b)))
             mixed_series =
      [revenue_statement 1 ''2019'' (Number 10), revenue_statement 2 ''2020'' (Number 0),
       revenue_statement 3 ''2021'' (Number 80), revenue_statement 4 ''2022'' (Number 103),
       revenue_statement 5 ''2023'' Null]"
    by (simp add: mixed_series_def revenue_statement_def js_sort_def cmp_le0_def nan_minus_def
        parseInt_def is_space_def is_digit_def digits_val_def digit_val_def Let_def)
  have r: "revenue (revenue_statement d yr v) = v" "calendarYear (revenue_statement d yr v) = yr"
    for d yr v by (simp_all add: revenue_statement_def)
  note T = C3_revenue_growth[of mixed_series]
  have 1: "calculateRevenueGrowth mixed_series =
     [\<lparr>year = ''2020'', growth = Num (- 100)\<rparr>,
      \<lparr>year = ''2022'', growth = Num (8078331831595827 / 281474976710656)\<rparr>,
      \<lparr>year = ''2023'', growth = Num (- 100)\<rparr>]"
    using T
    by (simp add: m r ToNumber_values js_positive_def growth_steps_80_103 growth_steps_to_zero)
  have 2: "growthRates (processRevenueData mixed_series) =
       [None, Some (Num (- 100)), None, Some (Num (8092405580431359 / 281474976710656)),
        Some (Num (- 100))]"
    using T
    by (simp add: y r ToNumber_values js_positive_def growth_steps_80_103 growth_steps_to_zero)
  have 3: "Math_round ((103 - 80) / 80 * 100 * 10) = 288"
    by (simp add: Math_round_def)
  have g: "sort_key date growth_series =
      [revenue_statement 1 ''2020'' (Number 100), revenue_statement 2 ''2021'' (Number 110),
       revenue_statement 3 ''2022'' (Number 121)]"
    by (simp add: growth_series_def revenue_statement_def)
  have h: "\<forall>s \<in> set (butlast (sort_key date growth_series)). js_positive (ToNumber (revenue s))"
    by (simp add: g r ToNumber_values js_positive_def)
  have 4: "length (calculateRevenueGrowth growth_series) = length growth_series - 1
     \<and> map year (calculateRevenueGrowth growth_series) = map calendarYear (tl (sort_key date growth_series))"
    using C3_revenue_growth[of growth_series] h by blast
  have 5: "map calendarYear (tl (sort_key date growth_series)) = [''2021'', ''2022'']"
    by (simp add: g r)
  from 1 2 3 4 5 dbl_values(4) show ?thesis by simp
qed

subsection \<open>Sampling of the price series\<close>

lemma filter_enumerate_set:
  "set (map snd (filter P (enumerate n xs))) \<subseteq> set xs"
  by (induction xs arbitrary: n) auto

lemma filter_enumerate_sorted:
  "sorted (map f xs) \<Longrightarrow> sorted (map f (map snd (filter P (enumerate n xs))))"
proof (induction xs arbitrary: n)
  case Nil
  show ?case by simp
next
  case (Cons x xs)
  from Cons.prems have s: "sorted (map f xs)" and le: "\<forall>y \<in> set xs. f x \<le> f y"
    by auto
  have r: "sorted (map f (map snd (filter P (enumerate (Suc n) xs))))"
    using s by (rule Cons.IH)
  have "\<forall>y \<in> set (map snd (filter P (enumerate (Suc n) xs))). f x \<le> f y"
    using le filter_enumerate_set[of P "Suc n" xs] by auto
  with r show ?case by auto
qed

lemma every_nth_sorted: "sorted (map f xs) \<Longrightarrow> sorted (map f (every_nth step xs))"
  unfolding every_nth_def by (rule filter_enumerate_sorted)

lemma every_nth_hd: "xs \<noteq> [] \<Longrightarrow> every_nth step xs = hd xs # tl (every_nth step xs)"
  by (cases xs) (simp_all add: every_nth_def)

lemma filter_enumerate_all:
  "(\<forall>p \<in> set (enumerate n xs). P p) \<Longrightarrow> map snd (filter P (enumerate n xs)) = xs"
  by (induction xs arbitrary: n) auto

lemma every_nth_1: "every_nth 1 xs = xs"
  unfolding every_nth_def by (rule filter_enumerate_all) auto

lemma sample_points_hd:
  "xs \<noteq> [] \<Longrightarrow> sample_points maxPoints xs = hd xs # tl (sample_points maxPoints xs)"
proof (cases "maxPoints = 0")
  case True
  assume "xs \<noteq> []"
  with True show ?thesis by (cases xs) (simp_all add: sample_points_def)
next
  case False
  assume "xs \<noteq> []"
  then have "every_nth (max 1 (length xs div maxPoints)) xs
      = hd xs # tl (every_nth (max 1 (length xs div maxPoints)) xs)"
    by (rule every_nth_hd)
  with False show ?thesis by (simp add: sample_points_def)
qed

lemma sample_points_sorted:
  "sorted (map f xs) \<Longrightarrow> sorted (map f (sample_points maxPoints xs))"
proof (cases "maxPoints = 0")
  case True
  assume "sorted (map f xs)"
  then have "sorted (take 1 (map f xs))" by (rule sorted_wrt_take)
  with True show ?thesis by (simp add: sample_points_def take_map)
next
  case False
  assume "sorted (map f xs)"
  with False show ?thesis by (simp add: sample_points_def every_nth_sorted)
qed

lemma sample_points_all:
  "0 < maxPoints \<Longrightarrow> length xs < 2 * maxPoints \<Longrightarrow> sample_points maxPoints xs = xs"
proof -
  assume m: "0 < maxPoints" and l: "length xs < 2 * maxPoints"
  then have "length xs div maxPoints < 2" by (simp add: less_mult_imp_div_less mult.commute)
  then have "max 1 (length xs div maxPoints) = 1" by simp
  then have "every_nth (max 1 (length xs div maxPoints)) xs = xs"
    by (simp only: every_nth_1)
  with m show ?thesis by (simp add: sample_points_def)
qed

lemma hd_sort_key_Min:
  "xs \<noteq> [] \<Longrightarrow> f (hd (sort_key f xs)) = Min (f ` set xs)"
  for f :: "'a \<Rightarrow> 'k::linorder"
proof -
  assume ne: "xs \<noteq> []"
  let ?s = "sort_key f xs"
  from ne have sne: "?s \<noteq> []" by (metis length_sort length_0_conv)
  have srt: "sorted (map f ?s)" by simp
  have "f (hd ?s) \<in> f ` set xs" using sne by (metis hd_in_set imageI set_sort)
  moreover have "\<forall>y \<in> f ` set xs. f (hd ?s) \<le> y"
  proof
    fix y assume "y \<in> f ` set xs"
    then have y: "y \<in> set (map f ?s)" by simp
    from sne have "map f ?s = f (hd ?s) # map f (tl ?s)" by (cases ?s) simp_all
    with srt y show "f (hd ?s) \<le> y" by (metis order_refl set_ConsD sorted_simps(2))
  qed
  ultimately show ?thesis using ne by (intro Min_eqI[symmetric]) auto
qed

subsection \<open>Price normalisation\<close>

text \<open>
  Claim C7, as stated, fails twice. \<open>processPriceData\<close> has no deduplication: a point
  given twice is kept twice. And when the close of the earliest point is 0 the start
  price falls back to 1, so the first normalised value is 0 and not 100.
\<close>

theorem C7_counterexample:
  "prices (processPriceData repeated_prices 250) = [10, 10]
   \<and> normalizedPrices (processPriceData zero_start_prices 250) = [0, 2000]"
  by (simp add: processPriceData_def js_sort_def cmp_le0_def sample_points_def every_nth_def
      startPrice_def repeated_prices_def zero_start_prices_def Let_def)

text \<open>
  Claim C7, amended. For every price series with at least one point, \<open>processPriceData\<close>
  sorts the points ascending by date before sampling and normalisation and does not
  deduplicate them: the dates of the retained points are ascending, the first retained
  point is the earliest one, and when the series has fewer than twice \<open>maxPoints\<close> points
  every point is retained. The first normalised value is exactly 100 when the close of
  the earliest point is not zero, and 0 when it is zero.
\<close>

theorem C7_price_data:
  assumes "P \<noteq> []"
  shows "sorted (label_dates (processPriceData P maxPoints))
       \<and> prices (processPriceData P maxPoints) \<noteq> []
       \<and> hd (label_dates (processPriceData P maxPoints)) = Min (price_date ` set P)
       \<and> hd (prices (processPriceData P maxPoints)) = close (hd (sort_key price_date P))
       \<and> hd (normalizedPrices (processPriceData P maxPoints))
           = (if close (hd (sort_key price_date P)) = 0 then 0 else 100)
       \<and> (0 < maxPoints \<and> length P < 2 * maxPoints
            \<longrightarrow> prices (processPriceData P maxPoints) = map close (sort_key price_date P)
              \<and> length (prices (processPriceData P maxPoints)) = length P)"
proof -
  let ?s = "sort_key price_date P"
  let ?m = "sample_points maxPoints ?s"
  from assms have sne: "?s \<noteq> []" by (metis length_sort length_0_conv)
  have m: "?m = hd ?s # tl ?m" using sne by (rule sample_points_hd)
  have defs: "label_dates (processPriceData P maxPoints) = map price_date ?m"
    "prices (processPriceData P maxPoints) = map close ?m"
    "normalizedPrices (processPriceData P maxPoints)
       = map (\<lambda>p. close p / startPrice ?m * 100) ?m"
    by (simp_all add: processPriceData_def Let_def js_sort_key)
  have 1: "sorted (map price_date ?m)" by (rule sample_points_sorted) simp
  have 2: "map close ?m \<noteq> []" using m by (metis list.simps(3) map_is_Nil_conv)
  have 3: "hd (map price_date ?m) = Min (price_date ` set P)"
    using m hd_sort_key_Min[OF assms, of price_date] by (metis list.sel(1) list.simps(9))
  have 4: "hd (map close ?m) = close (hd ?s)" using m by (metis list.sel(1) list.simps(9))
  have sp: "startPrice ?m = (if close (hd ?s) = 0 then 1 else close (hd ?s))"
    by (subst m) (simp add: startPrice_def)
  have "hd (map (\<lambda>p. close p / startPrice ?m * 100) ?m) = close (hd ?s) / startPrice ?m * 100"
    using m by (metis list.sel(1) list.simps(9))
  then have 5: "hd (map (\<lambda>p. close p / startPrice ?m * 100) ?m)
      = (if close (hd ?s) = 0 then 0 else 100)"
    by (simp add: sp)
  have 6: "0 < maxPoints \<and> length P < 2 * maxPoints
            \<longrightarrow> map close ?m = map close ?s \<and> length (map close ?m) = length P"
  proof
    assume "0 < maxPoints \<and> length P < 2 * maxPoints"
    then have "?m = ?s" by (intro sample_points_all) simp_all
    then show "map close ?m = map close ?s \<and> length (map close ?m) = length P" by simp
  qed
  from 1 2 3 4 5 6 show ?thesis unfolding defs by (intro conjI)
qed

theorem C7_price_data_witness:
  "rising_prices \<noteq> []
   \<and> label_dates (processPriceData rising_prices 250) = [1, 2, 3]
   \<and> prices (processPriceData rising_prices 250) = [20, 25, 30]
   \<and> normalizedPrices (processPriceData rising_prices 250) = [100, 125, 150]"
proof -
  have n: "rising_prices \<noteq> []" by (simp add: rising_prices_def)
  have s: "sort_key price_date rising_prices =
       [\<lparr>price_date = 1, close = 20\<rparr>, \<lparr>price_date = 2, close = 25\<rparr>, \<lparr>price_date = 3, close = 30\<rparr>]"
    by (simp add: rising_prices_def)
  have c: "(0::nat) < 250 \<and> length rising_prices < 2 * 250" by (simp add: rising_prices_def)
  note T = C7_price_data[OF n, of 250]
  have "prices (processPriceData rising_prices 250) = map close (sort_key price_date rising_prices)
          \<and> length (prices (processPriceData rising_prices 250)) = length rising_prices"
    by (rule T[THEN conjunct2, THEN conjunct2, THEN conjunct2, THEN conjunct2, THEN conjunct2,
               THEN mp]) (rule c)
  then have p: "prices (processPriceData rising_prices 250)
                  = map close (sort_key price_date rising_prices)"
    by (rule conjunct1)
  have l: "label_dates (processPriceData rising_prices 250) = [1, 2, 3]"
    by (simp add: processPriceData_def js_sort_key s sample_points_def every_nth_def Let_def)
  have v: "normalizedPrices (processPriceData rising_prices 250) = [100, 125, 150]"
    by (simp add: processPriceData_def js_sort_key s sample_points_def every_nth_def
        startPrice_def Let_def)
  from n l v p show ?thesis by (simp add: s)
qed

subsection \<open>Totals and percentages of the market share\<close>










subsection \<open>Market share\<close>




subsection \<open>Evaluating slide content\<close>

lemmas js_idiom_defs =
  or0_def truthy_def str_or_def safeText_def first_line_def profile_name_def
  rating_upper_def horizon_text_def

lemma render_values:
  "formatLargeNumber (Some 1000000) = ''$1.00M''"
  "formatLargeNumber (Some 0) = ''$0''"
  "formatPercentage (Some 0) 1 = ''0.0%''"
  "formatPercentage (Some 0) (Suc 0) = ''0.0%''"
  "toFixed 2 0 = ''0.00''"
  "toFixed 0 0 = ''0''"
  "toFixed 0 1 = ''1''"
  by (simp_all add: render_simps)

lemma addValuation_ignores_valuation:
  "addValuation cd (fd\<lparr>valuation := v\<rparr>) = addValuation cd fd"
  by (simp add: addValuation_def priceBoxes_def)

lemma addRisksAndMitigants_ignores_text:
  "addRisksAndMitigants cd (fd\<lparr>risksAndMitigants := r\<rparr>) = addRisksAndMitigants cd fd"
  by (simp add: addRisksAndMitigants_def)

subsection \<open>Missing figures in the tables\<close>

text \<open>
  Claim C2. The claim asks that a missing figure is shown as \<open>N/A\<close> and never as zero.
  The block of operating metrics of the investment summary does so. The tables of the
  key-metrics and financial-summary slides do not: their cells replace a missing figure
  by 0 before formatting. For a statement of 2023 that carries a revenue and nothing
  else, the cells for gross profit, EBITDA, net income, the margins and the earnings
  per share read \<open>$0\<close>, \<open>0.0%\<close>, \<open>$0.00\<close> and \<open>0\<close>.
\<close>

theorem C2_missing_figures_render_as_zero:
  "ebitda statement_2023 = None \<and> epsdiluted statement_2023 = None
   \<and> table (addKeyMetrics example_company example_form) =
       Some [[''Metric'', ''FY2023''], [''Revenue'', ''$1.00M''], [''Gross Profit'', ''$0''],
             [''EBITDA'', ''$0''], [''Net Income'', ''$0''], [''Gross Margin'', ''0.0%''],
             [''Net Margin'', ''0.0%''], [''EPS (Diluted)'', ''$0.00'']]
   \<and> table (addFinancialSummary example_company example_form) =
       Some [[''($ millions)'', ''FY2023''], [''Revenue'', ''1''], [''Gross Profit'', ''0''],
             [''EBITDA'', ''0''], [''Operating Income'', ''0''], [''Net Income'', ''0'']]
   \<and> operatingData example_company =
       [(''Revenue (LTM)'', ''$1.00M''), (''Gross Margin'', ''N/A''), (''EBITDA Margin'', ''N/A''),
        (''Net Margin'', ''N/A''), (''ROE'', ''N/A''), (''Debt/Equity'', ''N/A'')]"
proof -
  have 0: "ebitda statement_2023 = None \<and> epsdiluted statement_2023 = None"
    by (simp add: statement_2023_def)
  have s: "js_sort cmp [statement_2023] = [statement_2023]" for cmp :: "FMPIncomeStatement \<Rightarrow> FMPIncomeStatement \<Rightarrow> int option"
    by (simp add: js_sort_def)
  have y: "calendarYear statement_2023 = ''2023''" "known (revenue statement_2023) = Some 1000000"
    "grossProfit statement_2023 = None" "ebitda statement_2023 = None"
    "netIncome statement_2023 = None" "operatingIncome statement_2023 = None"
    "grossProfitRatio statement_2023 = None" "netIncomeRatio statement_2023 = None"
    "epsdiluted statement_2023 = None"
    by (simp_all add: statement_2023_def known_def)
  have c: "incomeStatements example_company = [statement_2023]" "ratiosTTM example_company = None"
    by (simp_all add: example_company_def)
  have 1: "table (addKeyMetrics example_company example_form) =
       Some [[''Metric'', ''FY2023''], [''Revenue'', ''$1.00M''], [''Gross Profit'', ''$0''],
             [''EBITDA'', ''$0''], [''Net Income'', ''$0''], [''Gross Margin'', ''0.0%''],
             [''Net Margin'', ''0.0%''], [''EPS (Diluted)'', ''$0.00'']]"
    by (simp add: addKeyMetrics_def keyMetrics_table_def keyMetrics_sortedIncome_def
        keyMetrics_metrics_def fy_header_def c s y js_idiom_defs render_values)
  have 2: "table (addFinancialSummary example_company example_form) =
       Some [[''($ millions)'', ''FY2023''], [''Revenue'', ''1''], [''Gross Profit'', ''0''],
             [''EBITDA'', ''0''], [''Operating Income'', ''0''], [''Net Income'', ''0'']]"
    by (simp add: addFinancialSummary_def financialSummary_table_def millions_def
        fy_header_def c s y js_idiom_defs render_values)
  have 3: "operatingData example_company =
       [(''Revenue (LTM)'', ''$1.00M''), (''Gross Margin'', ''N/A''), (''EBITDA Margin'', ''N/A''),
        (''Net Margin'', ''N/A''), (''ROE'', ''N/A''), (''Debt/Equity'', ''N/A'')]"
    by (simp add: operatingData_def pct1_def c y js_idiom_defs render_values)
  from 0 1 2 3 show ?thesis by (intro conjI) simp_all
qed

subsection \<open>The user's texts on the editable slides\<close>

text \<open>
  Claim C8. The claim asks that each of the three editable slides shows the user's text
  when the form field is not empty. The valuation slide and the risks slide never read
  their form fields: with the fields filled in, their texts are those of the empty
  form, and the user's text is on neither slide. The thesis slide shows the first line
  of the user's thesis only, and the placeholder sentence when the field is empty.
  All three slides carry the action-required notes.
\<close>

theorem C8_user_text_not_on_slides:
  "valuation user_text_form = ''DCF implies $250''
   \<and> texts (addValuation example_company user_text_form)
       = texts (addValuation example_company example_form)
   \<and> ''DCF implies $250'' \<notin> set (texts (addValuation example_company user_text_form))
   \<and> risksAndMitigants user_text_form = ''Key risk: regulation''
   \<and> texts (addRisksAndMitigants example_company user_text_form)
       = texts (addRisksAndMitigants example_company example_form)
   \<and> ''Key risk: regulation'' \<notin> set (texts (addRisksAndMitigants example_company user_text_form))
   \<and> thesisText example_company user_text_form = ''Services growth''
   \<and> thesisText example_company example_form
       = ''We recommend BUY on Apple Inc. based on [YOUR THESIS HERE]''
   \<and> speaker_notes (addInvestmentThesis example_company example_form) \<noteq> None
   \<and> speaker_notes (addValuation example_company example_form) \<noteq> None
   \<and> speaker_notes (addRisksAndMitigants example_company example_form) \<noteq> None"
proof -
  have u: "user_text_form = example_form\<lparr>investmentThesis := ''Services growth'' @ [CHR 0x0A] @ ''Buybacks'',
                   valuation := ''DCF implies $250'',
                   risksAndMitigants := ''Key risk: regulation''\<rparr>"
    by (rule user_text_form_def)
  have 1: "valuation user_text_form = ''DCF implies $250''"
    "risksAndMitigants user_text_form = ''Key risk: regulation''"
    by (simp_all add: u)
  have 2: "texts (addValuation example_company user_text_form)
       = texts (addValuation example_company example_form)"
    by (simp add: u addValuation_def priceBoxes_def)
  have 3: "texts (addRisksAndMitigants example_company user_text_form)
       = texts (addRisksAndMitigants example_company example_form)"
    by (simp add: u addRisksAndMitigants_def)
  have 4: "''DCF implies $250'' \<notin> set (texts (addValuation example_company example_form))"
    by (simp add: addValuation_def priceBoxes_def valuation_methods_def example_company_def
        example_form_def js_idiom_defs bullet_def formatRatio_def)
  have 5: "''Key risk: regulation'' \<notin> set (texts (addRisksAndMitigants example_company example_form))"
    by (simp add: addRisksAndMitigants_def risks_def js_idiom_defs check_mark_def)
  have 6: "thesisText example_company user_text_form = ''Services growth''"
    by (simp add: u thesisText_def first_line_def example_form_def)
  have 7: "thesisText example_company example_form
       = ''We recommend BUY on Apple Inc. based on [YOUR THESIS HERE]''"
    by (simp add: thesisText_def example_form_def example_company_def js_idiom_defs)
  have 8: "speaker_notes (addInvestmentThesis example_company example_form) \<noteq> None"
    "speaker_notes (addValuation example_company example_form) \<noteq> None"
    "speaker_notes (addRisksAndMitigants example_company example_form) \<noteq> None"
    by (simp_all add: addInvestmentThesis_def addValuation_def addRisksAndMitigants_def)
  from 1 2 3 4 5 6 7 8 show ?thesis by (simp only: simp_thms)
qed

end
